theory Spec2Isabelle
  imports Complex_Main
begin

section \<open>PhotoPay backend: purchase confirmation and ledger verification\<close>

text \<open>
  A shallow embedding of \<^verbatim>\<open>backend/models.py\<close>, of
  \<^verbatim>\<open>SolanaService.verify_transaction\<close> (backend/services/solana_service.py),
  of \<^verbatim>\<open>is_valid_solana_address\<close> (backend/utils/helper.py) and of the endpoints
  \<^verbatim>\<open>initiate_purchase\<close> and \<^verbatim>\<open>confirm_purchase\<close> (backend/main.py).

  Conventions.
  \<^item> A table is the list of its rows in insertion order; \<^verbatim>\<open>query.filter(c).first()\<close>
    is \<open>find c\<close> on that list.
  \<^item> A Python \<^verbatim>\<open>float\<close> is an IEEE binary64 value, held as the real number it
    denotes. Every operation on floats rounds its exact result to the nearest double, ties
    to even (\<open>float_round\<close>); a result of magnitude \<open>2 ^ 1024\<close> or more stands for an
    infinity. Prices that are infinite or not a number are outside the model.
  \<^item> \<^verbatim>\<open>datetime.utcnow()\<close> and \<^verbatim>\<open>uuid.uuid4()\<close> are read from the
    environment record \<open>world\<close>, and so is every answer of the Solana RPC node and of the
    gateway.
  \<^item> An exception is a value: \<open>Inl\<close> of a sum type. \<^verbatim>\<open>db.commit()\<close> is taken to
    succeed.
  \<^item> The \<^verbatim>\<open>detail\<close> of a 500 response is its fixed prefix; the text of the exception
    that the source appends is left out.
\<close>

subsection \<open>backend/models.py\<close>

datatype UserRole = CREATOR | BUYER

datatype TransactionStatus = PENDING | CONFIRMED | FAILED

record User =
  wallet_address :: string
  role :: UserRole

text \<open>\<open>id_Listing\<close> and \<open>id_Purchase\<close> are the columns \<^verbatim>\<open>id\<close>.\<close>

record Listing =
  id_Listing :: string
  price_sol :: real
  creator_wallet :: string
  is_active :: bool

record Purchase =
  id_Purchase :: string
  listing_id :: string
  buyer_wallet :: string
  transaction_signature :: string
  amount_sol :: real
  status :: TransactionStatus
  purchased_at :: nat
  confirmed_at :: "nat option"

record db =
  users :: "User list"
  listings :: "Listing list"
  purchases :: "Purchase list"

subsection \<open>backend/schemas.py\<close>

record PurchaseCreate =
  create_listing_id :: string
  create_buyer_wallet :: string

record PurchaseConfirm =
  confirm_listing_id :: string
  confirm_buyer_wallet :: string
  confirm_transaction_signature :: string

subsection \<open>The ledger as the RPC client shows it\<close>

text \<open>
  A \<^verbatim>\<open>jsonParsed\<close> instruction either has no attribute \<^verbatim>\<open>parsed\<close> or carries
  a dictionary; a key that is absent is \<open>None\<close>. \<open>lamports\<close> is \<open>None\<close> when the
  key is absent or \<^verbatim>\<open>int(...)\<close> raises on its value.
\<close>

record transfer_info =
  source :: "string option"
  destination :: "string option"
  lamports :: "int option"

record parsed_instruction =
  parsed_type :: "string option"
  parsed_info :: "transfer_info option"

datatype instruction = Unparsed | Parsed parsed_instruction

record tx_meta =
  err :: "string option"

record tx =
  meta :: "tx_meta option"
  instructions :: "instruction list"

text \<open>
  What \<^verbatim>\<open>Signature.from_string\<close> followed by \<^verbatim>\<open>client.get_transaction\<close> does:
  it raises (a malformed signature, a timeout, a transport failure), or it answers with
  \<^verbatim>\<open>response.value\<close>, which is \<^verbatim>\<open>None\<close> while the ledger does not show the
  transaction.
\<close>

datatype rpc_response = RpcRaises | RpcValue "tx option"

datatype py_exception = RpcError | AttributeError | KeyError | OverflowError

record world =
  get_transaction :: "string \<Rightarrow> rpc_response"
  utcnow :: nat
  uuid4 :: string
  pubkey_from_string_ok :: "string \<Rightarrow> bool"
  get_latest_blockhash :: "(string \<times> nat) option"
  gateway_enabled :: bool
  get_priority_fee_estimate :: "int option"

subsection \<open>Python floats\<close>

text \<open>\<open>pow2 k\<close> is \<open>2\<close> to the power \<open>k\<close>, for an integer \<open>k\<close> of either sign.\<close>

definition pow2 :: "int \<Rightarrow> real" where
  "pow2 k = (if 0 \<le> k then 2 ^ nat k else 1 / 2 ^ nat (- k))"

text \<open>The nearest integer; a value halfway between two integers goes to the even one.\<close>

definition round_half_even :: "real \<Rightarrow> int" where
  "round_half_even y =
     (let f = \<lfloor>y\<rfloor>; r = y - of_int f
      in if r < 1 / 2 then f else if 1 / 2 < r then f + 1 else if even f then f else f + 1)"

text \<open>
  The binary exponent of a double near \<open>x\<close>: the exponent of \<open>x\<close> itself, and \<open>-1022\<close> in
  the subnormal range.
\<close>

definition float_exponent :: "real \<Rightarrow> int" where
  "float_exponent x = max \<lfloor>log 2 \<bar>x\<bar>\<rfloor> (- 1022)"

text \<open>
  Rounding to binary64: doubles with exponent \<open>e\<close> are the multiples of \<open>2\<close> to the
  \<open>e - 52\<close>, and \<open>x\<close> goes to the nearest of them.
\<close>

definition float_round :: "real \<Rightarrow> real" where
  "float_round x =
     (if x = 0 then 0
      else of_int (round_half_even (x / pow2 (float_exponent x - 52)))
             * pow2 (float_exponent x - 52))"

text \<open>A rounded result beyond the largest double.\<close>

definition float_overflow :: "real \<Rightarrow> bool" where
  "float_overflow x = (2 ^ 1024 \<le> \<bar>x\<bar>)"

subsection \<open>backend/services/solana_service.py\<close>

text \<open>
  \<^verbatim>\<open>lamports / 1_000_000_000\<close> divides two Python integers: the result is the double
  nearest to the exact quotient, and \<^verbatim>\<open>OverflowError\<close> when that is beyond the largest
  double.
\<close>

definition lamports_to_sol :: "int \<Rightarrow> py_exception + real" where
  "lamports_to_sol l =
     (let x = float_round (real_of_int l / 1000000000)
      in if float_overflow x then Inl OverflowError else Inr x)"

text \<open>
  \<^verbatim>\<open>int(sol * 1_000_000_000)\<close>: the product is rounded to a double, and \<^verbatim>\<open>int\<close>
  truncates it towards zero; on an infinite product \<^verbatim>\<open>int\<close> raises.
\<close>

definition sol_to_lamports :: "real \<Rightarrow> py_exception + int" where
  "sol_to_lamports sol =
     (let x = float_round (sol * 1000000000)
      in if float_overflow x then Inl OverflowError
         else Inr (if 0 \<le> x then \<lfloor>x\<rfloor> else \<lceil>x\<rceil>))"

text \<open>
  The loop over the instructions of \<^verbatim>\<open>verify_transaction\<close>. \<open>Inr True\<close> is the
  \<^verbatim>\<open>return True\<close> inside the loop, \<open>Inr False\<close> is falling out of the loop, \<open>Inl\<close>
  is an exception raised by a subscript or by the conversion of the lamports. The
  subtraction rounds, and \<^verbatim>\<open>0.000001\<close> is the double nearest to one millionth.
\<close>

fun scan_instructions ::
  "string \<Rightarrow> string \<Rightarrow> real \<Rightarrow> instruction list \<Rightarrow> py_exception + bool" where
  "scan_instructions expected_sender expected_receiver expected_amount_sol [] = Inr False"
| "scan_instructions expected_sender expected_receiver expected_amount_sol (Unparsed # ixs) =
     scan_instructions expected_sender expected_receiver expected_amount_sol ixs"
| "scan_instructions expected_sender expected_receiver expected_amount_sol (Parsed p # ixs) =
     (case parsed_type p of
        None \<Rightarrow> Inl KeyError
      | Some ty \<Rightarrow>
          if ty = ''transfer'' then
            (case parsed_info p of
               None \<Rightarrow> Inl KeyError
             | Some info \<Rightarrow>
                 (case source info of
                    None \<Rightarrow> Inl KeyError
                  | Some sender \<Rightarrow>
                      (case destination info of
                         None \<Rightarrow> Inl KeyError
                       | Some receiver \<Rightarrow>
                           (case lamports info of
                              None \<Rightarrow> Inl KeyError
                            | Some l \<Rightarrow>
                                (case lamports_to_sol l of
                                   Inl e \<Rightarrow> Inl e
                                 | Inr amount \<Rightarrow>
                                     if sender = expected_sender \<and>
                                        receiver = expected_receiver \<and>
                                        \<bar>float_round (amount - expected_amount_sol)\<bar>
                                          < float_round (1 / 1000000)
                                     then Inr True
                                     else scan_instructions expected_sender expected_receiver
                                            expected_amount_sol ixs)))))
          else scan_instructions expected_sender expected_receiver expected_amount_sol ixs)"

text \<open>The body of the \<^verbatim>\<open>try\<close> block of \<^verbatim>\<open>verify_transaction\<close>.\<close>

definition verify_transaction_try ::
  "rpc_response \<Rightarrow> string \<Rightarrow> string \<Rightarrow> real \<Rightarrow> py_exception + bool" where
  "verify_transaction_try response expected_sender expected_receiver expected_amount_sol =
     (case response of
        RpcRaises \<Rightarrow> Inl RpcError
      | RpcValue None \<Rightarrow> Inr False
      | RpcValue (Some t) \<Rightarrow>
          (case meta t of
             None \<Rightarrow> Inl AttributeError
           | Some m \<Rightarrow>
               if err m \<noteq> None then Inr False
               else scan_instructions expected_sender expected_receiver expected_amount_sol
                      (instructions t)))"

text \<open>\<^verbatim>\<open>except Exception: ... return False\<close>: no exception leaves the verifier.\<close>

definition verify_transaction ::
  "world \<Rightarrow> string \<Rightarrow> string \<Rightarrow> string \<Rightarrow> real \<Rightarrow> bool" where
  "verify_transaction w signature expected_sender expected_receiver expected_amount_sol =
     (case verify_transaction_try (get_transaction w signature) expected_sender
             expected_receiver expected_amount_sol of
        Inl e \<Rightarrow> False
      | Inr b \<Rightarrow> b)"

subsection \<open>backend/utils/helper.py\<close>

definition base58_alphabet :: string where
  "base58_alphabet = ''123456789ABCDEFGHJKLMNPQRSTUVWXYZabcdefghijkmnopqrstuvwxyz''"

text \<open>
  \<^verbatim>\<open>re.match(r'^[1-9A-HJ-NP-Za-km-z]{32,44}$', address)\<close>; Python's \<^verbatim>\<open>$\<close> also
  matches before one final newline.
\<close>

definition is_valid_solana_address :: "string \<Rightarrow> bool" where
  "is_valid_solana_address address =
     (let body = (if address \<noteq> [] \<and> last address = CHR 0x0A then butlast address
                  else address)
      in 32 \<le> length body \<and> length body \<le> 44 \<and> list_all (\<lambda>c. c \<in> set base58_alphabet) body)"

subsection \<open>backend/main.py: the purchase endpoints\<close>

datatype HTTPException = HTTPException (status_code: nat) (detail: string)

record transaction_data =
  from_pubkey :: string
  to_pubkey :: string
  td_lamports :: int
  td_amount_sol :: real
  recent_blockhash :: string
  last_valid_block_height :: nat
  priority_fee :: "int option"
  optimized :: bool

record PurchaseInitResponse =
  init_transaction_data :: transaction_data
  init_listing :: Listing
  init_amount_sol :: real

text \<open>
  \<^verbatim>\<open>create_transfer_transaction\<close>: \<open>None\<close> when \<^verbatim>\<open>Pubkey.from_string\<close>, the
  conversion to lamports or the blockhash request raises.
\<close>

definition create_transfer_transaction ::
  "world \<Rightarrow> string \<Rightarrow> string \<Rightarrow> real \<Rightarrow> transaction_data option" where
  "create_transfer_transaction w from_wallet to_wallet amount =
     (if \<not> pubkey_from_string_ok w from_wallet \<or> \<not> pubkey_from_string_ok w to_wallet
      then None
      else (case sol_to_lamports amount of
              Inl e \<Rightarrow> None
            | Inr l \<Rightarrow>
                (case get_latest_blockhash w of
                   None \<Rightarrow> None
                 | Some (blockhash, height) \<Rightarrow>
                     Some \<lparr>from_pubkey = from_wallet, to_pubkey = to_wallet,
                           td_lamports = l, td_amount_sol = amount,
                           recent_blockhash = blockhash, last_valid_block_height = height,
                           priority_fee = None, optimized = False\<rparr>)))"

text \<open>An endpoint returns its response together with the database it leaves.\<close>

definition ensure_buyer :: "db \<Rightarrow> string \<Rightarrow> db" where
  "ensure_buyer d wallet =
     (case find (\<lambda>u. wallet_address u = wallet) (users d) of
        Some buyer \<Rightarrow> d
      | None \<Rightarrow> d\<lparr>users := users d @ [\<lparr>wallet_address = wallet, role = BUYER\<rparr>]\<rparr>)"

text \<open>\<^verbatim>\<open>if priority_fee:\<close> is false for \<^verbatim>\<open>None\<close> and for 0.\<close>

definition gateway_optimize :: "world \<Rightarrow> transaction_data \<Rightarrow> transaction_data" where
  "gateway_optimize w td =
     (if gateway_enabled w then
        (case get_priority_fee_estimate w of
           None \<Rightarrow> td
         | Some fee \<Rightarrow>
             if fee \<noteq> 0 then td\<lparr>priority_fee := Some fee, optimized := True\<rparr> else td)
      else td)"

definition initiate_purchase ::
  "world \<Rightarrow> db \<Rightarrow> PurchaseCreate \<Rightarrow> (HTTPException + PurchaseInitResponse) \<times> db" where
  "initiate_purchase w d purchase_data =
     (if \<not> is_valid_solana_address (create_buyer_wallet purchase_data)
      then (Inl (HTTPException 400 ''Invalid buyer wallet address''), d)
      else
        (case find (\<lambda>l. id_Listing l = create_listing_id purchase_data \<and> is_active l)
                (listings d) of
           None \<Rightarrow> (Inl (HTTPException 404 ''Listing not found or inactive''), d)
         | Some listing \<Rightarrow>
             (case find (\<lambda>p. listing_id p = create_listing_id purchase_data \<and>
                              buyer_wallet p = create_buyer_wallet purchase_data \<and>
                              status p = CONFIRMED) (purchases d) of
                Some existing_purchase \<Rightarrow>
                  (Inl (HTTPException 409 ''You already own this artwork''), d)
              | None \<Rightarrow>
                  (case create_transfer_transaction w (create_buyer_wallet purchase_data)
                          (creator_wallet listing) (price_sol listing) of
                     None \<Rightarrow>
                       (Inl (HTTPException 500 ''Failed to create transaction''),
                        ensure_buyer d (create_buyer_wallet purchase_data))
                   | Some td \<Rightarrow>
                       (Inr \<lparr>init_transaction_data = gateway_optimize w td,
                             init_listing = listing,
                             init_amount_sol = price_sol listing\<rparr>,
                        ensure_buyer d (create_buyer_wallet purchase_data))))))"

text \<open>The response of \<^verbatim>\<open>confirm_purchase\<close> when the verifier returns \<^verbatim>\<open>False\<close>.\<close>

abbreviation verification_failed :: HTTPException where
  "verification_failed \<equiv>
     HTTPException 400
       ''Transaction verification failed. Please ensure transaction is confirmed on-chain.''"

text \<open>
  \<open>update_first\<close> writes to the row that \<^verbatim>\<open>first()\<close> returned: the first row of the
  table that satisfies the filter.
\<close>

fun update_first :: "('a \<Rightarrow> bool) \<Rightarrow> ('a \<Rightarrow> 'a) \<Rightarrow> 'a list \<Rightarrow> 'a list" where
  "update_first P f [] = []"
| "update_first P f (x # xs) = (if P x then f x # xs else x # update_first P f xs)"

text \<open>
  What a call of \<^verbatim>\<open>confirm_purchase\<close> leaves behind: the response, the database, and
  the signatures on which it awaited \<open>verify_transaction\<close>, in order. The endpoint reaches
  the ledger through the verifier only, so an empty list means that no ledger call was made.
\<close>

record confirm_outcome =
  response :: "HTTPException + Purchase"
  db_after :: db
  verifier_calls :: "string list"

text \<open>
  The statements of \<^verbatim>\<open>confirm_purchase\<close> after the verifier has been awaited, with what
  the \<^verbatim>\<open>await\<close> produced: \<open>Inr is_valid\<close>, or \<open>Inl e\<close> for an exception, which
  the handler \<^verbatim>\<open>except Exception\<close> turns into a pending purchase and a 500.
\<close>

definition confirm_after_verify ::
  "world \<Rightarrow> db \<Rightarrow> PurchaseConfirm \<Rightarrow> Listing \<Rightarrow> Purchase option \<Rightarrow> py_exception + bool \<Rightarrow>
   (HTTPException + Purchase) \<times> db" where
  "confirm_after_verify w d confirm_data listing existing verdict =
     (case verdict of
        Inr is_valid \<Rightarrow>
          if \<not> is_valid then
            (Inl verification_failed, d)
          else
            (case existing of
               Some e \<Rightarrow>
                 (let e' = e\<lparr>status := CONFIRMED, confirmed_at := Some (utcnow w)\<rparr>
                  in (Inr e',
                      d\<lparr>purchases :=
                          update_first
                            (\<lambda>p. transaction_signature p =
                                   confirm_transaction_signature confirm_data)
                            (\<lambda>p. p\<lparr>status := CONFIRMED, confirmed_at := Some (utcnow w)\<rparr>)
                            (purchases d)\<rparr>))
             | None \<Rightarrow>
                 (let new_purchase =
                        \<lparr>id_Purchase = uuid4 w,
                         listing_id = confirm_listing_id confirm_data,
                         buyer_wallet = confirm_buyer_wallet confirm_data,
                         transaction_signature = confirm_transaction_signature confirm_data,
                         amount_sol = price_sol listing,
                         status = CONFIRMED,
                         purchased_at = utcnow w,
                         confirmed_at = Some (utcnow w)\<rparr>
                  in (Inr new_purchase, d\<lparr>purchases := purchases d @ [new_purchase]\<rparr>)))
      | Inl e \<Rightarrow>
          (Inl (HTTPException 500 ''Failed to verify transaction''),
           (case existing of
              Some e \<Rightarrow> d
            | None \<Rightarrow>
                d\<lparr>purchases := purchases d @
                     [\<lparr>id_Purchase = uuid4 w,
                       listing_id = confirm_listing_id confirm_data,
                       buyer_wallet = confirm_buyer_wallet confirm_data,
                       transaction_signature = confirm_transaction_signature confirm_data,
                       amount_sol = price_sol listing,
                       status = PENDING,
                       purchased_at = utcnow w,
                       confirmed_at = None\<rparr>]\<rparr>)))"

text \<open>
  The \<^verbatim>\<open>try\<close> block: the verifier is awaited with the request's signature and buyer and
  with the listing's creator and price. \<open>verify_transaction\<close> returns a truth value on
  every path, so the verdict handed on is always \<open>Inr\<close>.
\<close>

definition confirm_verify ::
  "world \<Rightarrow> db \<Rightarrow> PurchaseConfirm \<Rightarrow> Listing \<Rightarrow> Purchase option \<Rightarrow> confirm_outcome" where
  "confirm_verify w d confirm_data listing existing =
     (let is_valid =
            verify_transaction w (confirm_transaction_signature confirm_data)
              (confirm_buyer_wallet confirm_data) (creator_wallet listing) (price_sol listing);
          r = confirm_after_verify w d confirm_data listing existing (Inr is_valid)
      in \<lparr>response = fst r, db_after = snd r,
           verifier_calls = [confirm_transaction_signature confirm_data]\<rparr>)"

text \<open>
  \<^verbatim>\<open>confirm_purchase\<close>. Only a \<^verbatim>\<open>CONFIRMED\<close> row returns early; the branch for
  \<^verbatim>\<open>PENDING\<close> is \<^verbatim>\<open>pass\<close>, and a \<^verbatim>\<open>FAILED\<close> row has no branch, so both go
  on to the \<^verbatim>\<open>try\<close> block.
\<close>

definition confirm_purchase :: "world \<Rightarrow> db \<Rightarrow> PurchaseConfirm \<Rightarrow> confirm_outcome" where
  "confirm_purchase w d confirm_data =
     (case find (\<lambda>l. id_Listing l = confirm_listing_id confirm_data) (listings d) of
        None \<Rightarrow>
          \<lparr>response = Inl (HTTPException 404 ''Listing not found''), db_after = d,
            verifier_calls = []\<rparr>
      | Some listing \<Rightarrow>
          (case find (\<lambda>p. transaction_signature p = confirm_transaction_signature confirm_data)
                  (purchases d) of
             Some existing \<Rightarrow>
               if status existing = CONFIRMED
               then \<lparr>response = Inr existing, db_after = d, verifier_calls = []\<rparr>
               else confirm_verify w d confirm_data listing (Some existing)
           | None \<Rightarrow> confirm_verify w d confirm_data listing None))"

subsection \<open>Properties of tables and of ledger answers\<close>

text \<open>The column \<^verbatim>\<open>transaction_signature\<close> is declared \<^verbatim>\<open>unique=True\<close>.\<close>

definition unique_signatures :: "db \<Rightarrow> bool" where
  "unique_signatures d = distinct (map transaction_signature (purchases d))"


text \<open>The rows that make a buyer the owner of a listing.\<close>

definition confirmed_for :: "db \<Rightarrow> string \<Rightarrow> string \<Rightarrow> Purchase list" where
  "confirmed_for d l b =
     filter (\<lambda>p. listing_id p = l \<and> buyer_wallet p = b \<and> status p = CONFIRMED) (purchases d)"

text \<open>A parsed transfer instruction with all its keys.\<close>

definition transfer_ix :: "string \<Rightarrow> string \<Rightarrow> int \<Rightarrow> instruction" where
  "transfer_ix sender receiver l =
     Parsed \<lparr>parsed_type = Some ''transfer'',
             parsed_info = Some \<lparr>source = Some sender, destination = Some receiver,
                                  lamports = Some l\<rparr>\<rparr>"

text \<open>
  The instructions on which the loop of \<^verbatim>\<open>verify_transaction\<close> raises: a parsed
  instruction without a type, and a transfer that lacks a key or whose lamports do not
  convert.
\<close>

definition instruction_raises :: "instruction \<Rightarrow> bool" where
  "instruction_raises ix =
     (case ix of
        Unparsed \<Rightarrow> False
      | Parsed p \<Rightarrow>
          (case parsed_type p of
             None \<Rightarrow> True
           | Some ty \<Rightarrow>
               ty = ''transfer'' \<and>
               (case parsed_info p of
                  None \<Rightarrow> True
                | Some info \<Rightarrow>
                    source info = None \<or> destination info = None \<or>
                    (case lamports info of
                       None \<Rightarrow> True
                     | Some l \<Rightarrow> isl (lamports_to_sol l)))))"

text \<open>
  A ledger rejection of a fetched transaction: it executed with an error, or the loop over
  its instructions ends without a match.
\<close>

definition ledger_rejects :: "tx \<Rightarrow> string \<Rightarrow> string \<Rightarrow> real \<Rightarrow> bool" where
  "ledger_rejects t expected_sender expected_receiver expected_amount_sol =
     (case meta t of
        None \<Rightarrow> False
      | Some m \<Rightarrow>
          err m \<noteq> None \<or>
          scan_instructions expected_sender expected_receiver expected_amount_sol
            (instructions t) = Inr False)"


subsection \<open>Concrete data\<close>

text \<open>Two well-formed public keys.\<close>

definition buyer0 :: string where
  "buyer0 = ''Vote111111111111111111111111111111111111111''"

definition creator0 :: string where
  "creator0 = ''Stake11111111111111111111111111111111111111''"

definition listing0 :: Listing where
  "listing0 = \<lparr>id_Listing = ''L1'', price_sol = 3 / 2, creator_wallet = creator0,
                is_active = True\<rparr>"

text \<open>The double nearest to 1.5000001.\<close>

definition price_raised :: real where
  "price_raised = 6755399891415707 / 4503599627370496"

definition tx_paying :: "int \<Rightarrow> tx" where
  "tx_paying l = \<lparr>meta = Some \<lparr>err = None\<rparr>, instructions = [transfer_ix buyer0 creator0 l]\<rparr>"

text \<open>
  A transaction whose matching transfer stands third, after an instruction that is not
  parsed and a transfer in the other direction.
\<close>

definition tx_paying_third :: "int \<Rightarrow> tx" where
  "tx_paying_third l =
     \<lparr>meta = Some \<lparr>err = None\<rparr>,
      instructions = [Unparsed, transfer_ix creator0 buyer0 l, transfer_ix buyer0 creator0 l]\<rparr>"

definition tx_failed_on_chain :: "int \<Rightarrow> tx" where
  "tx_failed_on_chain l =
     \<lparr>meta = Some \<lparr>err = Some ''InstructionError''\<rparr>,
      instructions = [transfer_ix buyer0 creator0 l]\<rparr>"

text \<open>A world whose ledger gives the same answer for every signature.\<close>

definition world_answering :: "rpc_response \<Rightarrow> world" where
  "world_answering r =
     \<lparr>get_transaction = (\<lambda>signature. r), utcnow = 100, uuid4 = ''uuid-2'',
      pubkey_from_string_ok = (\<lambda>s. True), get_latest_blockhash = Some (''blockhash'', 7),
      gateway_enabled = False, get_priority_fee_estimate = None\<rparr>"

text \<open>The same world at a later time, with the next identifier.\<close>

definition world_later :: "rpc_response \<Rightarrow> world" where
  "world_later r = (world_answering r)\<lparr>utcnow := 200, uuid4 := ''uuid-3''\<rparr>"

definition purchase0 :: "string \<Rightarrow> TransactionStatus \<Rightarrow> nat option \<Rightarrow> Purchase" where
  "purchase0 s st c =
     \<lparr>id_Purchase = ''uuid-1'', listing_id = ''L1'', buyer_wallet = buyer0,
      transaction_signature = s, amount_sol = 3 / 2, status = st, purchased_at = 50,
      confirmed_at = c\<rparr>"

text \<open>The purchase of \<open>listing0\<close> by \<open>buyer0\<close> that a call creates at time \<open>t\<close>.\<close>

definition purchase_created :: "string \<Rightarrow> string \<Rightarrow> nat \<Rightarrow> Purchase" where
  "purchase_created i s t =
     \<lparr>id_Purchase = i, listing_id = ''L1'', buyer_wallet = buyer0,
      transaction_signature = s, amount_sol = 3 / 2, status = CONFIRMED, purchased_at = t,
      confirmed_at = Some t\<rparr>"

definition db0 :: "Purchase list \<Rightarrow> db" where
  "db0 ps = \<lparr>users = [], listings = [listing0], purchases = ps\<rparr>"

definition listing1 :: Listing where
  "listing1 = \<lparr>id_Listing = ''L2'', price_sol = 2, creator_wallet = creator0,
                is_active = True\<rparr>"

definition db_two_listings :: "Purchase list \<Rightarrow> db" where
  "db_two_listings ps = \<lparr>users = [], listings = [listing0, listing1], purchases = ps\<rparr>"

definition confirm0 :: "string \<Rightarrow> PurchaseConfirm" where
  "confirm0 s = \<lparr>confirm_listing_id = ''L1'', confirm_buyer_wallet = buyer0,
                  confirm_transaction_signature = s\<rparr>"

section \<open>Auxiliary lemmas\<close>

subsection \<open>Rounding\<close>

lemma pow2_powr: "pow2 k = 2 powr (of_int k)"
  by (simp add: pow2_def powr_realpow [symmetric] powr_minus_divide)

lemma pow2_pos [simp]: "0 < pow2 k"
  by (simp add: pow2_powr)

lemma pow2_add: "pow2 (j + k) = pow2 j * pow2 k"
  by (simp add: pow2_powr powr_add)

lemma float_exponent_eq:
  assumes "pow2 k \<le> \<bar>x\<bar>" "\<bar>x\<bar> < pow2 (k + 1)" "- 1022 \<le> k"
  shows "float_exponent x = k"
proof -
  have "0 < \<bar>x\<bar>"
    using assms(1) pow2_pos [of k] by linarith
  then have "\<lfloor>log 2 \<bar>x\<bar>\<rfloor> = k"
    using assms(1,2) by (simp add: floor_log_eq_powr_iff pow2_powr)
  with assms(3) show ?thesis
    by (simp add: float_exponent_def)
qed

lemma float_round_eval:
  assumes "pow2 k \<le> \<bar>x\<bar>" "\<bar>x\<bar> < pow2 (k + 1)" "- 1022 \<le> k"
  shows "float_round x = of_int (round_half_even (x / pow2 (k - 52))) * pow2 (k - 52)"
proof -
  have "0 < \<bar>x\<bar>"
    using assms(1) pow2_pos [of k] by linarith
  then have "x \<noteq> 0"
    by simp
  then show ?thesis
    by (simp add: float_round_def float_exponent_eq [OF assms])
qed

lemma round_half_even_of_int [simp]: "round_half_even (of_int m) = m"
  by (simp add: round_half_even_def)

lemma float_round_tolerance:
  "float_round (1 / 1000000) = 4722366482869645 / 4722366482869645213696"
proof -
  have "float_round (1 / 1000000)
      = of_int (round_half_even ((1 / 1000000) / pow2 (- 20 - 52))) * pow2 (- 20 - 52)"
    by (rule float_round_eval) (simp_all add: pow2_def)
  also have "\<dots> = 4722366482869645 / 4722366482869645213696"
    by (simp add: pow2_def round_half_even_def Let_def)
  finally show ?thesis .
qed

lemma float_round_0 [simp]: "float_round 0 = 0"
  by (simp add: float_round_def)

lemma float_round_minus_half: "float_round (- (1 / 2)) = - (1 / 2)"
proof -
  have "float_round (- (1 / 2))
      = of_int (round_half_even ((- (1 / 2)) / pow2 (- 1 - 52))) * pow2 (- 1 - 52)"
    by (rule float_round_eval) (simp_all add: pow2_def)
  also have "\<dots> = - (1 / 2)"
    by (simp add: pow2_def round_half_even_def Let_def)
  finally show ?thesis .
qed

lemma lamports_to_sol_1500000000: "lamports_to_sol 1500000000 = Inr (3 / 2)"
proof -
  have "float_round (3 / 2) = of_int (round_half_even ((3 / 2) / pow2 (0 - 52))) * pow2 (0 - 52)"
    by (rule float_round_eval) (simp_all add: pow2_def)
  also have "\<dots> = 3 / 2"
    by (simp add: pow2_def round_half_even_def Let_def)
  finally show ?thesis
    by (simp add: lamports_to_sol_def float_overflow_def)
qed

lemma lamports_to_sol_1000000000: "lamports_to_sol 1000000000 = Inr 1"
proof -
  have "float_round 1 = of_int (round_half_even (1 / pow2 (0 - 52))) * pow2 (0 - 52)"
    by (rule float_round_eval) (simp_all add: pow2_def)
  also have "\<dots> = 1"
    by (simp add: pow2_def round_half_even_def Let_def)
  finally show ?thesis
    by (simp add: lamports_to_sol_def float_overflow_def)
qed

lemmas float_evals =
  lamports_to_sol_1500000000 lamports_to_sol_1000000000 float_round_tolerance
  float_round_minus_half

lemma find_unique_signature:
  assumes "distinct (map transaction_signature ps)" "p \<in> set ps" "transaction_signature p = s"
  shows "find (\<lambda>q. transaction_signature q = s) ps = Some p"
  using assms
proof (induction ps)
  case Nil
  then show ?case by simp
next
  case (Cons a ps)
  then show ?case by (cases "transaction_signature a = s") (auto simp: rev_image_eqI)
qed

lemma confirm_fast_path:
  assumes "find (\<lambda>l. id_Listing l = confirm_listing_id c) (listings d) = Some listing"
    and "find (\<lambda>p. transaction_signature p = confirm_transaction_signature c) (purchases d) = Some e"
    and "status e = CONFIRMED"
  shows "confirm_purchase w d c = \<lparr>response = Inr e, db_after = d, verifier_calls = []\<rparr>"
  using assms by (simp add: confirm_purchase_def)

lemma confirm_slow_path:
  assumes "find (\<lambda>l. id_Listing l = confirm_listing_id c) (listings d) = Some listing"
    and "find (\<lambda>p. transaction_signature p = confirm_transaction_signature c) (purchases d) = ex"
    and "\<And>e. ex = Some e \<Longrightarrow> status e \<noteq> CONFIRMED"
  shows "confirm_purchase w d c = confirm_verify w d c listing ex"
  using assms by (cases ex) (simp_all add: confirm_purchase_def)

lemma confirm_verify_rejected:
  assumes "\<not> verify_transaction w (confirm_transaction_signature c) (confirm_buyer_wallet c)
             (creator_wallet listing) (price_sol listing)"
  shows "confirm_verify w d c listing ex =
           \<lparr>response = Inl verification_failed, db_after = d,
            verifier_calls = [confirm_transaction_signature c]\<rparr>"
  using assms by (simp add: confirm_verify_def confirm_after_verify_def)

lemma confirm_verify_accepted_new:
  assumes "verify_transaction w (confirm_transaction_signature c) (confirm_buyer_wallet c)
             (creator_wallet listing) (price_sol listing)"
  shows "confirm_verify w d c listing None =
           \<lparr>response = Inr \<lparr>id_Purchase = uuid4 w, listing_id = confirm_listing_id c,
                            buyer_wallet = confirm_buyer_wallet c,
                            transaction_signature = confirm_transaction_signature c,
                            amount_sol = price_sol listing, status = CONFIRMED,
                            purchased_at = utcnow w, confirmed_at = Some (utcnow w)\<rparr>,
            db_after = d\<lparr>purchases := purchases d @
                          [\<lparr>id_Purchase = uuid4 w, listing_id = confirm_listing_id c,
                            buyer_wallet = confirm_buyer_wallet c,
                            transaction_signature = confirm_transaction_signature c,
                            amount_sol = price_sol listing, status = CONFIRMED,
                            purchased_at = utcnow w, confirmed_at = Some (utcnow w)\<rparr>]\<rparr>,
            verifier_calls = [confirm_transaction_signature c]\<rparr>"
  using assms by (simp add: confirm_verify_def confirm_after_verify_def Let_def)

lemma confirm_verify_accepted_existing:
  assumes "verify_transaction w (confirm_transaction_signature c) (confirm_buyer_wallet c)
             (creator_wallet listing) (price_sol listing)"
  shows "confirm_verify w d c listing (Some e) =
           \<lparr>response = Inr (e\<lparr>status := CONFIRMED, confirmed_at := Some (utcnow w)\<rparr>),
            db_after = d\<lparr>purchases :=
                          update_first
                            (\<lambda>p. transaction_signature p = confirm_transaction_signature c)
                            (\<lambda>p. p\<lparr>status := CONFIRMED, confirmed_at := Some (utcnow w)\<rparr>)
                            (purchases d)\<rparr>,
            verifier_calls = [confirm_transaction_signature c]\<rparr>"
  using assms by (simp add: confirm_verify_def confirm_after_verify_def Let_def)

lemma verify_transaction_not_visible:
  "get_transaction w s = RpcValue None \<Longrightarrow> \<not> verify_transaction w s es er ea"
  by (simp add: verify_transaction_def verify_transaction_try_def)

lemma verify_transaction_raises:
  "get_transaction w s = RpcRaises \<Longrightarrow> \<not> verify_transaction w s es er ea"
  by (simp add: verify_transaction_def verify_transaction_try_def)

lemma verify_transaction_rejects:
  "get_transaction w s = RpcValue (Some t) \<Longrightarrow> ledger_rejects t es er ea
   \<Longrightarrow> \<not> verify_transaction w s es er ea"
  by (auto simp: verify_transaction_def verify_transaction_try_def ledger_rejects_def
      split: option.splits)

lemma update_first_length [simp]: "length (update_first P f xs) = length xs"
  by (induction xs) auto

lemma update_first_filter:
  assumes "distinct (map g xs)" "find (\<lambda>x. g x = s) xs = Some e" "g (f e) = s"
  shows "filter (\<lambda>x. g x = s) (update_first (\<lambda>x. g x = s) f xs) = [f e]"
  using assms
proof (induction xs)
  case Nil
  then show ?case by simp
next
  case (Cons a xs)
  show ?case
  proof (cases "g a = s")
    case True
    from True Cons.prems(2) have ea: "e = a" by simp
    from Cons.prems(1) have "g a \<notin> g ` set xs" by simp
    with True have "\<forall>x\<in>set xs. g x \<noteq> s" by blast
    then have "filter (\<lambda>x. g x = s) xs = []" by (simp add: filter_empty_conv)
    with True ea Cons.prems(3) show ?thesis by simp
  next
    case False
    with Cons show ?thesis by simp
  qed
qed

lemma find_None_filter: "find P xs = None \<Longrightarrow> filter P xs = []"
  by (simp add: find_None_iff filter_empty_conv)




subsection \<open>What the endpoints write\<close>

lemma initiate_purchase_amount:
  assumes "initiate_purchase w d purchase_data = (Inr r, d')"
    and "find (\<lambda>l. id_Listing l = create_listing_id purchase_data \<and> is_active l) (listings d)
           = Some listing"
  shows "init_amount_sol r = price_sol listing"
    and "td_amount_sol (init_transaction_data r) = price_sol listing"
    and "sol_to_lamports (price_sol listing) = Inr (td_lamports (init_transaction_data r))"
    and "purchases d' = purchases d"
  using assms
  by (auto simp: initiate_purchase_def create_transfer_transaction_def gateway_optimize_def
      ensure_buyer_def split: if_splits option.splits sum.splits)


lemma confirm_purchase_writes:
  fixes w d c
  defines "s \<equiv> confirm_transaction_signature c"
    and "d' \<equiv> db_after (confirm_purchase w d c)"
  shows "purchases d' = purchases d
       \<or> (\<exists>n. purchases d' = purchases d @ [n] \<and> status n = CONFIRMED
              \<and> confirmed_at n = Some (utcnow w))
       \<or> (\<exists>e. find (\<lambda>p. transaction_signature p = s) (purchases d) = Some e
              \<and> status e \<noteq> CONFIRMED
              \<and> purchases d' =
                  update_first (\<lambda>p. transaction_signature p = s)
                    (\<lambda>p. p\<lparr>status := CONFIRMED, confirmed_at := Some (utcnow w)\<rparr>)
                    (purchases d))"
  unfolding s_def d'_def
  by (auto simp: confirm_purchase_def confirm_verify_def confirm_after_verify_def Let_def
      split: option.splits)



lemma confirm_purchase_length:
  "length (purchases d) \<le> length (purchases (db_after (confirm_purchase w d c)))"
  using confirm_purchase_writes [of w d c] by auto




subsection \<open>The instruction loop\<close>

lemma transfer_ix_eq:
  "Parsed p = transfer_ix s r l
   \<longleftrightarrow> parsed_type p = Some ''transfer''
       \<and> (\<exists>info. parsed_info p = Some info \<and> source info = Some s
              \<and> destination info = Some r \<and> lamports info = Some l)"
proof (cases p)
  case (fields ty inf)
  show ?thesis
  proof (cases inf)
    case None
    with fields show ?thesis by (simp add: transfer_ix_def)
  next
    case (Some info)
    with fields show ?thesis by (cases info) (auto simp: transfer_ix_def)
  qed
qed

text \<open>What the loop does with its first instruction.\<close>

lemma scan_instructions_raises:
  "instruction_raises ix \<Longrightarrow> \<exists>e. scan_instructions es er ea (ix # ixs) = Inl e"
  by (cases ix) (auto simp: instruction_raises_def split: option.splits sum.splits)

lemma scan_instructions_match:
  assumes "lamports_to_sol l = Inr a"
    and "\<bar>float_round (a - ea)\<bar> < float_round (1 / 1000000)"
  shows "scan_instructions es er ea (transfer_ix es er l # ixs) = Inr True"
  using assms by (simp add: transfer_ix_def)

lemma scan_instructions_step:
  assumes "\<not> instruction_raises ix"
  shows "scan_instructions es er ea (ix # ixs) = Inr True
         \<longleftrightarrow> (\<exists>l a. ix = transfer_ix es er l \<and> lamports_to_sol l = Inr a
                    \<and> \<bar>float_round (a - ea)\<bar> < float_round (1 / 1000000))
             \<or> scan_instructions es er ea ixs = Inr True"
proof (cases ix)
  case Unparsed
  then show ?thesis by (simp add: transfer_ix_def)
next
  case (Parsed p)
  with assms show ?thesis
    by (auto simp: instruction_raises_def transfer_ix_eq
        split: option.splits sum.splits if_splits)
qed

lemma scan_instructions_accepts_iff:
  "scan_instructions es er ea ixs = Inr True
   \<longleftrightarrow> (\<exists>i l a. i < length ixs \<and> ixs ! i = transfer_ix es er l
          \<and> lamports_to_sol l = Inr a
          \<and> \<bar>float_round (a - ea)\<bar> < float_round (1 / 1000000)
          \<and> (\<forall>j<i. \<not> instruction_raises (ixs ! j)))"
  (is "?L ixs \<longleftrightarrow> ?R ixs")
proof (induction ixs)
  case Nil
  then show ?case by simp
next
  case (Cons ix ixs)
  show ?case
  proof (cases "instruction_raises ix")
    case True
    then have "\<not> ?L (ix # ixs)"
      using scan_instructions_raises [of ix es er ea ixs] by auto
    moreover have "\<not> ?R (ix # ixs)"
    proof
      assume "?R (ix # ixs)"
      then obtain i l a where i: "i < length (ix # ixs)" "(ix # ixs) ! i = transfer_ix es er l"
          "lamports_to_sol l = Inr a" "\<forall>j<i. \<not> instruction_raises ((ix # ixs) ! j)"
        by blast
      show False
      proof (cases i)
        case 0
        with i(2,3) True show False
          by (simp add: instruction_raises_def transfer_ix_def)
      next
        case (Suc k)
        with i(4) True show False by auto
      qed
    qed
    ultimately show ?thesis by blast
  next
    case False
    have "?R (ix # ixs) \<longleftrightarrow>
        (\<exists>l a. ix = transfer_ix es er l \<and> lamports_to_sol l = Inr a
                \<and> \<bar>float_round (a - ea)\<bar> < float_round (1 / 1000000))
        \<or> ?R ixs"
    proof
      assume "?R (ix # ixs)"
      then obtain i l a where i: "i < length (ix # ixs)" "(ix # ixs) ! i = transfer_ix es er l"
          "lamports_to_sol l = Inr a" "\<bar>float_round (a - ea)\<bar> < float_round (1 / 1000000)"
          "\<forall>j<i. \<not> instruction_raises ((ix # ixs) ! j)"
        by blast
      show "(\<exists>l a. ix = transfer_ix es er l \<and> lamports_to_sol l = Inr a
                \<and> \<bar>float_round (a - ea)\<bar> < float_round (1 / 1000000)) \<or> ?R ixs"
      proof (cases i)
        case 0
        with i show ?thesis by auto
      next
        case (Suc k)
        with i have "k < length ixs" "ixs ! k = transfer_ix es er l"
            "\<forall>j<k. \<not> instruction_raises (ixs ! j)"
          by auto
        with i(3,4) show ?thesis by blast
      qed
    next
      assume "(\<exists>l a. ix = transfer_ix es er l \<and> lamports_to_sol l = Inr a
                \<and> \<bar>float_round (a - ea)\<bar> < float_round (1 / 1000000)) \<or> ?R ixs"
      then show "?R (ix # ixs)"
      proof
        assume "\<exists>l a. ix = transfer_ix es er l \<and> lamports_to_sol l = Inr a
                \<and> \<bar>float_round (a - ea)\<bar> < float_round (1 / 1000000)"
        then obtain l a where "(ix # ixs) ! 0 = transfer_ix es er l" "lamports_to_sol l = Inr a"
            "\<bar>float_round (a - ea)\<bar> < float_round (1 / 1000000)"
          by auto
        then show ?thesis
          by (intro exI [of _ "0::nat"] exI [of _ l] exI [of _ a]) simp
      next
        assume "?R ixs"
        then obtain i l a where i: "i < length ixs" "ixs ! i = transfer_ix es er l"
            "lamports_to_sol l = Inr a" "\<bar>float_round (a - ea)\<bar> < float_round (1 / 1000000)"
            "\<forall>j<i. \<not> instruction_raises (ixs ! j)"
          by blast
        have "\<forall>j<Suc i. \<not> instruction_raises ((ix # ixs) ! j)"
          using i(5) False by (auto simp: less_Suc_eq_0_disj)
        with i(1-4) show ?thesis
          by (intro exI [of _ "Suc i"] exI [of _ l] exI [of _ a]) simp
      qed
    qed
    with scan_instructions_step [OF False, of es er ea ixs] Cons.IH show ?thesis
      by simp
  qed
qed

lemma verify_transaction_scan:
  assumes "get_transaction w signature = RpcValue (Some t)" "meta t = Some m" "err m = None"
  shows "verify_transaction w signature es er ea
         \<longleftrightarrow> scan_instructions es er ea (instructions t) = Inr True"
  using assms
  by (cases "scan_instructions es er ea (instructions t)")
     (auto simp: verify_transaction_def verify_transaction_try_def)

subsection \<open>Rounding errors\<close>

lemma round_half_even_error: "\<bar>of_int (round_half_even y) - y\<bar> \<le> 1 / 2"
proof -
  have "of_int \<lfloor>y\<rfloor> \<le> y" "y < of_int \<lfloor>y\<rfloor> + 1"
    by linarith+
  then show ?thesis
    by (auto simp: round_half_even_def Let_def)
qed

lemma pow2_nonneg [simp]: "0 \<le> pow2 k"
  using pow2_pos [of k] by linarith

lemma pow2_mono: "j \<le> k \<Longrightarrow> pow2 j \<le> pow2 k"
  by (simp add: pow2_powr)

lemma pow2_half: "pow2 (k - 53) = pow2 (k - 52) / 2"
proof -
  have "pow2 (k - 53) = pow2 ((k - 52) + (- 1))"
    by simp
  also have "\<dots> = pow2 (k - 52) * pow2 (- 1)"
    by (rule pow2_add)
  finally show ?thesis
    by (simp add: pow2_def)
qed

lemma float_round_error: "\<bar>float_round x - x\<bar> \<le> pow2 (float_exponent x - 53)"
proof (cases "x = 0")
  case True
  then show ?thesis
    by simp
next
  case False
  define q where "q = pow2 (float_exponent x - 52)"
  have q: "0 < q"
    by (simp add: q_def)
  have "float_round x = of_int (round_half_even (x / q)) * q"
    using False by (simp add: float_round_def q_def)
  then have "float_round x - x = q * (of_int (round_half_even (x / q)) - x / q)"
    using q by (simp add: algebra_simps)
  then have "\<bar>float_round x - x\<bar> = q * \<bar>of_int (round_half_even (x / q)) - x / q\<bar>"
    using q by (simp add: abs_mult)
  also have "\<dots> \<le> q * (1 / 2)"
    using q round_half_even_error [of "x / q"] by (intro mult_left_mono) auto
  finally show ?thesis
    by (simp add: pow2_half q_def)
qed

lemma float_exponent_upper:
  assumes "x \<noteq> 0" "\<bar>x\<bar> < pow2 (k + 1)" "- 1022 \<le> k"
  shows "float_exponent x \<le> k"
proof -
  have "log 2 \<bar>x\<bar> < of_int (k + 1)"
    using assms(1,2) by (simp add: pow2_powr log_less_iff del: of_int_add)
  then have "\<lfloor>log 2 \<bar>x\<bar>\<rfloor> < k + 1"
    by (simp only: floor_less_iff)
  with assms(3) show ?thesis
    by (simp add: float_exponent_def)
qed

lemma pow2_float_exponent:
  assumes "pow2 (- 1022) \<le> \<bar>x\<bar>"
  shows "pow2 (float_exponent x) \<le> \<bar>x\<bar>"
proof -
  have pos: "0 < \<bar>x\<bar>"
    using assms pow2_pos [of "- 1022"] by linarith
  have "of_int (- 1022) \<le> log 2 \<bar>x\<bar>"
    using assms pos by (simp add: pow2_powr le_log_iff del: of_int_minus)
  then have "- 1022 \<le> \<lfloor>log 2 \<bar>x\<bar>\<rfloor>"
    by (simp add: le_floor_iff del: of_int_minus)
  then have e: "float_exponent x = \<lfloor>log 2 \<bar>x\<bar>\<rfloor>"
    by (simp add: float_exponent_def)
  have "of_int \<lfloor>log 2 \<bar>x\<bar>\<rfloor> \<le> log 2 \<bar>x\<bar>"
    by simp
  then have "2 powr of_int \<lfloor>log 2 \<bar>x\<bar>\<rfloor> \<le> \<bar>x\<bar>"
    using pos le_log_iff [of 2 "\<bar>x\<bar>" "of_int \<lfloor>log 2 \<bar>x\<bar>\<rfloor>"] by simp
  then show ?thesis
    by (simp add: e pow2_powr)
qed

lemma float_round_lower:
  assumes "pow2 (- 1022) \<le> \<bar>y\<bar>"
  shows "\<bar>y\<bar> * (1 - 1 / 2 ^ 53) \<le> \<bar>float_round y\<bar>"
proof -
  have "pow2 (float_exponent y - 53) = pow2 (float_exponent y) * pow2 (- 53)"
    using pow2_add [of "float_exponent y" "- 53"] by simp
  also have "\<dots> \<le> \<bar>y\<bar> * pow2 (- 53)"
    using pow2_float_exponent [OF assms] by (intro mult_right_mono) auto
  finally have "\<bar>float_round y - y\<bar> \<le> \<bar>y\<bar> * pow2 (- 53)"
    using float_round_error [of y] by linarith
  moreover have "pow2 (- 53) = 1 / 2 ^ 53"
    by (simp add: pow2_def)
  ultimately have "\<bar>float_round y - y\<bar> \<le> \<bar>y\<bar> * (1 / 2 ^ 53)"
    by simp
  moreover have "\<bar>float_round y + (y - float_round y)\<bar>
      \<le> \<bar>float_round y\<bar> + \<bar>y - float_round y\<bar>"
    by (rule abs_triangle_ineq)
  then have "\<bar>y\<bar> \<le> \<bar>float_round y\<bar> + \<bar>float_round y - y\<bar>"
    by (simp add: abs_minus_commute)
  ultimately have "\<bar>y\<bar> - \<bar>y\<bar> * (1 / 2 ^ 53) \<le> \<bar>float_round y\<bar>"
    by linarith
  then show ?thesis
    by (simp add: algebra_simps)
qed

text \<open>
  Lamports below \<open>2 ^ 64\<close> whose exact amount is \<open>1e-5\<close> or more away from the expected
  amount are outside the tolerance after rounding.
\<close>

lemma far_amount_outside_tolerance:
  assumes "0 \<le> l" "l < 2 ^ 64"
    and "1 / 100000 \<le> \<bar>real_of_int l / 1000000000 - ea\<bar>"
    and "lamports_to_sol l = Inr a"
  shows "\<not> \<bar>float_round (a - ea)\<bar> < float_round (1 / 1000000)"
proof -
  define x where "x = real_of_int l / 1000000000"
  have a: "a = float_round x"
    using assms(4) by (simp add: lamports_to_sol_def x_def Let_def split: if_splits)
  have "real_of_int l < 2 ^ 64"
    using assms(2) by (metis of_int_less_iff of_int_numeral of_int_power)
  then have xb: "\<bar>x\<bar> < pow2 (34 + 1)"
    using assms(1) by (simp add: x_def pow2_def)
  have near: "\<bar>a - x\<bar> \<le> pow2 (- 19)"
  proof (cases "x = 0")
    case True
    then show ?thesis by (simp add: a pow2_def)
  next
    case False
    then have "float_exponent x \<le> 34"
      using xb by (rule float_exponent_upper) simp
    then have "pow2 (float_exponent x - 53) \<le> pow2 (- 19)"
      by (intro pow2_mono) simp
    with float_round_error [of x] show ?thesis
      by (simp add: a)
  qed
  have p19: "pow2 (- 19) = 1 / 524288"
    by (simp add: pow2_def)
  have "\<bar>(a - ea) + (x - a)\<bar> \<le> \<bar>a - ea\<bar> + \<bar>x - a\<bar>"
    by (rule abs_triangle_ineq)
  then have "\<bar>x - ea\<bar> \<le> \<bar>a - ea\<bar> + \<bar>a - x\<bar>"
    by (simp add: abs_minus_commute)
  moreover have "1 / 100000 \<le> \<bar>x - ea\<bar>"
    using assms(3) by (simp add: x_def)
  ultimately have far: "1 / 100000 - 1 / 524288 \<le> \<bar>a - ea\<bar>"
    using near unfolding p19 by linarith
  have "pow2 (- 1022) \<le> pow2 (- 19)"
    by (intro pow2_mono) simp
  also have "\<dots> \<le> \<bar>a - ea\<bar>"
    using far by (simp add: p19)
  finally have "\<bar>a - ea\<bar> * (1 - 1 / 2 ^ 53) \<le> \<bar>float_round (a - ea)\<bar>"
    by (rule float_round_lower)
  moreover have "(1 / 100000 - 1 / 524288) * (1 - 1 / 2 ^ 53) \<le> \<bar>a - ea\<bar> * (1 - 1 / 2 ^ 53)"
    using far by (intro mult_right_mono) auto
  moreover have "float_round (1 / 1000000) < (1 / 100000 - 1 / 524288) * (1 - 1 / 2 ^ 53)"
    by (simp add: float_round_tolerance)
  ultimately show ?thesis
    by linarith
qed

subsection \<open>Doubles of the examples\<close>

lemma float_round_2e_6:
  "float_round (2 / 1000000) = 4722366482869645 / 2361183241434822606848"
proof -
  have "float_round (2 / 1000000)
      = of_int (round_half_even ((2 / 1000000) / pow2 (- 19 - 52))) * pow2 (- 19 - 52)"
    by (rule float_round_eval) (simp_all add: pow2_def)
  also have "\<dots> = 4722366482869645 / 2361183241434822606848"
    by (simp add: pow2_def round_half_even_def Let_def)
  finally show ?thesis .
qed

lemma float_round_1_5000009:
  "float_round (15000009 / 10000000) = 6755403494295409 / 4503599627370496"
proof -
  have "float_round (15000009 / 10000000)
      = of_int (round_half_even ((15000009 / 10000000) / pow2 (0 - 52))) * pow2 (0 - 52)"
    by (rule float_round_eval) (simp_all add: pow2_def)
  also have "\<dots> = 6755403494295409 / 4503599627370496"
    by (simp add: pow2_def round_half_even_def Let_def)
  finally show ?thesis .
qed

lemma float_round_1_500001:
  "float_round (1500001 / 1000000) = 6755403944655371 / 4503599627370496"
proof -
  have "float_round (1500001 / 1000000)
      = of_int (round_half_even ((1500001 / 1000000) / pow2 (0 - 52))) * pow2 (0 - 52)"
    by (rule float_round_eval) (simp_all add: pow2_def)
  also have "\<dots> = 6755403944655371 / 4503599627370496"
    by (simp add: pow2_def round_half_even_def Let_def)
  finally show ?thesis .
qed

lemma float_round_1_5000001: "float_round (15000001 / 10000000) = price_raised"
proof -
  have "float_round (15000001 / 10000000)
      = of_int (round_half_even ((15000001 / 10000000) / pow2 (0 - 52))) * pow2 (0 - 52)"
    by (rule float_round_eval) (simp_all add: pow2_def)
  also have "\<dots> = price_raised"
    by (simp add: pow2_def round_half_even_def Let_def price_raised_def)
  finally show ?thesis .
qed

text \<open>The differences of the examples are doubles themselves, so the subtraction is exact.\<close>

lemma float_round_diff_2e_6:
  "float_round (float_round (2 / 1000000) - float_round (1 / 1000000))
     = float_round (1 / 1000000)"
proof -
  have d: "float_round (2 / 1000000) - float_round (1 / 1000000)
      = 4722366482869645 / 4722366482869645213696"
    unfolding float_round_2e_6 float_round_tolerance by simp
  have "float_round (4722366482869645 / 4722366482869645213696)
      = of_int (round_half_even ((4722366482869645 / 4722366482869645213696) / pow2 (- 20 - 52)))
          * pow2 (- 20 - 52)"
    by (rule float_round_eval) (simp_all add: pow2_def)
  also have "\<dots> = 4722366482869645 / 4722366482869645213696"
    by (simp add: pow2_def round_half_even_def Let_def)
  finally have e: "float_round (4722366482869645 / 4722366482869645213696)
      = 4722366482869645 / 4722366482869645213696" .
  show ?thesis
    unfolding d by (simp only: e float_round_tolerance)
qed

lemma float_round_diff_1_500001:
  "float_round (float_round (1500001 / 1000000) - 3 / 2) = 4503599627 / 4503599627370496"
proof -
  have d: "float_round (1500001 / 1000000) - 3 / 2 = 4503599627 / 4503599627370496"
    by (simp add: float_round_1_500001)
  have "float_round (4503599627 / 4503599627370496)
      = of_int (round_half_even ((4503599627 / 4503599627370496) / pow2 (- 20 - 52)))
          * pow2 (- 20 - 52)"
    by (rule float_round_eval) (simp_all add: pow2_def)
  also have "\<dots> = 4503599627 / 4503599627370496"
    by (simp add: pow2_def round_half_even_def Let_def)
  finally show ?thesis
    by (simp only: d)
qed

lemma float_round_diff_1_5000009:
  "float_round (float_round (15000009 / 10000000) - 3 / 2) = 4053239665 / 4503599627370496"
proof -
  have d: "float_round (15000009 / 10000000) - 3 / 2 = 4053239665 / 4503599627370496"
    by (simp add: float_round_1_5000009)
  have "float_round (4053239665 / 4503599627370496)
      = of_int (round_half_even ((4053239665 / 4503599627370496) / pow2 (- 21 - 52)))
          * pow2 (- 21 - 52)"
    by (rule float_round_eval) (simp_all add: pow2_def)
  also have "\<dots> = 4053239665 / 4503599627370496"
    by (simp add: pow2_def round_half_even_def Let_def)
  finally show ?thesis
    by (simp only: d)
qed

lemma float_round_diff_price_raised:
  "float_round (3 / 2 - price_raised) = - (450359963 / 4503599627370496)"
proof -
  have d: "3 / 2 - price_raised = - (450359963 / 4503599627370496)"
    by (simp add: price_raised_def)
  have "float_round (- (450359963 / 4503599627370496))
      = of_int (round_half_even ((- (450359963 / 4503599627370496)) / pow2 (- 24 - 52)))
          * pow2 (- 24 - 52)"
    by (rule float_round_eval) (simp_all add: pow2_def)
  also have "\<dots> = - (450359963 / 4503599627370496)"
    by (simp add: pow2_def round_half_even_def Let_def)
  finally show ?thesis
    by (simp only: d)
qed

lemma lamports_to_sol_2000: "lamports_to_sol 2000 = Inr (float_round (2 / 1000000))"
proof -
  have "real_of_int 2000 / 1000000000 = 2 / 1000000"
    by simp
  moreover have "\<not> float_overflow (float_round (2 / 1000000))"
    by (simp only: float_round_2e_6) (simp add: float_overflow_def)
  ultimately show ?thesis
    by (simp only: lamports_to_sol_def Let_def if_False)
qed

lemma lamports_to_sol_1500001000:
  "lamports_to_sol 1500001000 = Inr (float_round (1500001 / 1000000))"
proof -
  have "real_of_int 1500001000 / 1000000000 = 1500001 / 1000000"
    by simp
  moreover have "\<not> float_overflow (float_round (1500001 / 1000000))"
    by (simp only: float_round_1_500001) (simp add: float_overflow_def)
  ultimately show ?thesis
    by (simp only: lamports_to_sol_def Let_def if_False)
qed

lemma lamports_to_sol_1500000900:
  "lamports_to_sol 1500000900 = Inr (float_round (15000009 / 10000000))"
proof -
  have "real_of_int 1500000900 / 1000000000 = 15000009 / 10000000"
    by simp
  moreover have "\<not> float_overflow (float_round (15000009 / 10000000))"
    by (simp only: float_round_1_5000009) (simp add: float_overflow_def)
  ultimately show ?thesis
    by (simp only: lamports_to_sol_def Let_def if_False)
qed

lemma sol_to_lamports_1_5: "sol_to_lamports (3 / 2) = Inr 1500000000"
proof -
  have "float_round (1500000000)
      = of_int (round_half_even (1500000000 / pow2 (30 - 52))) * pow2 (30 - 52)"
    by (rule float_round_eval) (simp_all add: pow2_def)
  also have "\<dots> = 1500000000"
    by (simp add: pow2_def round_half_even_def Let_def)
  finally show ?thesis
    by (simp add: sol_to_lamports_def float_overflow_def)
qed

text \<open>The verifier on a transaction with one transfer from \<open>buyer0\<close> to \<open>creator0\<close>.\<close>

lemma verify_transaction_tx_paying:
  assumes "lamports_to_sol l = Inr a"
  shows "verify_transaction (world_answering (RpcValue (Some (tx_paying l)))) s buyer0 creator0 ea
         \<longleftrightarrow> \<bar>float_round (a - ea)\<bar> < float_round (1 / 1000000)"
  using assms
  by (simp add: verify_transaction_def verify_transaction_try_def world_answering_def
      tx_paying_def transfer_ix_def)

text \<open>The truncation sees the rounded product: 2.01 SOL are 2009999999 lamports.\<close>

lemma sol_to_lamports_2_01: "sol_to_lamports (float_round (201 / 100)) = Inr 2009999999"
proof -
  define y :: real where "y = 1131529406376837 / 562949953421312 * 1000000000"
  have "float_round (201 / 100)
      = of_int (round_half_even ((201 / 100) / pow2 (1 - 52))) * pow2 (1 - 52)"
    by (rule float_round_eval) (simp_all add: pow2_def)
  also have "\<dots> = 1131529406376837 / 562949953421312"
    by (simp add: pow2_def round_half_even_def Let_def)
  finally have x: "float_round (201 / 100) = 1131529406376837 / 562949953421312" .
  have "float_round y = of_int (round_half_even (y / pow2 (30 - 52))) * pow2 (30 - 52)"
    by (rule float_round_eval) (simp_all add: y_def pow2_def)
  also have "\<dots> = 8430551039999999 / 4194304"
    by (simp add: y_def pow2_def round_half_even_def Let_def)
  finally have r: "float_round y = 8430551039999999 / 4194304" .
  show ?thesis
    unfolding sol_to_lamports_def x y_def [symmetric] by (simp add: r float_overflow_def)
qed

section \<open>The claims\<close>

text \<open>
  C8. A fetched transaction whose execution-error field is set is rejected by the verifier,
  whatever its instruction list holds: \<open>verify_transaction\<close> returns \<open>False\<close> for every
  expected sender, receiver and amount, also when an instruction matches all three.
\<close>

theorem verify_transaction_on_chain_error:
  assumes "get_transaction w signature = RpcValue (Some t)"
    and "meta t = Some m"
    and "err m \<noteq> None"
  shows "verify_transaction w signature expected_sender expected_receiver expected_amount_sol
           = False"
  using assms by (simp add: verify_transaction_def verify_transaction_try_def)

text \<open>
  At a transaction that failed on chain and whose only instruction pays the expected amount
  from the expected sender to the expected receiver: the loop alone would accept, the
  verifier rejects.
\<close>

theorem verify_transaction_on_chain_error_witness:
  "get_transaction (world_answering (RpcValue (Some (tx_failed_on_chain 1500000000)))) ''sig1''
     = RpcValue (Some (tx_failed_on_chain 1500000000))
   \<and> meta (tx_failed_on_chain 1500000000) = Some \<lparr>err = Some ''InstructionError''\<rparr>
   \<and> err \<lparr>err = Some ''InstructionError''\<rparr> \<noteq> None
   \<and> scan_instructions buyer0 creator0 (3 / 2)
         (instructions (tx_failed_on_chain 1500000000)) = Inr True
   \<and> verify_transaction (world_answering (RpcValue (Some (tx_failed_on_chain 1500000000))))
         ''sig1'' buyer0 creator0 (3 / 2) = False"
proof -
  have a: "get_transaction (world_answering (RpcValue (Some (tx_failed_on_chain 1500000000))))
             ''sig1'' = RpcValue (Some (tx_failed_on_chain 1500000000))"
    by (simp add: world_answering_def)
  have b: "meta (tx_failed_on_chain 1500000000) = Some \<lparr>err = Some ''InstructionError''\<rparr>"
    by (simp add: tx_failed_on_chain_def)
  have c: "err \<lparr>err = Some ''InstructionError''\<rparr> \<noteq> None"
    by simp
  have d: "scan_instructions buyer0 creator0 (3 / 2)
             (instructions (tx_failed_on_chain 1500000000)) = Inr True"
    by (simp add: tx_failed_on_chain_def transfer_ix_def float_evals)
  from verify_transaction_on_chain_error [OF a b c] a b c d show ?thesis
    by simp
qed

text \<open>
  C5 (as stated). A call carrying the signature of a \<^verbatim>\<open>CONFIRMED\<close> purchase does not
  return that record when its \<^verbatim>\<open>listing_id\<close> names no listing: the listing lookup comes
  first and answers 404.
\<close>

theorem confirm_purchase_confirmed_signature_unknown_listing:
  "response
     (confirm_purchase (world_answering RpcRaises)
        (db0 [purchase0 ''sig1'' CONFIRMED (Some 60)])
        \<lparr>confirm_listing_id = ''L9'', confirm_buyer_wallet = buyer0,
         confirm_transaction_signature = ''sig1''\<rparr>)
   = Inl (HTTPException 404 ''Listing not found'')"
  by (simp add: confirm_purchase_def db0_def listing0_def)

text \<open>
  C5 (amended). In a database with unique signatures that holds a \<^verbatim>\<open>CONFIRMED\<close>
  purchase with signature \<open>s\<close>, every call carrying \<open>s\<close> whose \<^verbatim>\<open>listing_id\<close> names a
  listing returns that record as stored, leaves the database as it was and asks the ledger
  nothing.
\<close>

theorem confirm_purchase_confirmed_signature:
  assumes "unique_signatures d"
    and "p \<in> set (purchases d)"
    and "transaction_signature p = confirm_transaction_signature confirm_data"
    and "status p = CONFIRMED"
    and "find (\<lambda>l. id_Listing l = confirm_listing_id confirm_data) (listings d) = Some listing"
  shows "response (confirm_purchase w d confirm_data) = Inr p
       \<and> db_after (confirm_purchase w d confirm_data) = d
       \<and> verifier_calls (confirm_purchase w d confirm_data) = []"
proof -
  have "find (\<lambda>q. transaction_signature q = confirm_transaction_signature confirm_data)
          (purchases d) = Some p"
    using assms(1-3) by (simp add: unique_signatures_def find_unique_signature)
  with assms(4,5) show ?thesis
    by (simp add: confirm_fast_path)
qed

theorem confirm_purchase_confirmed_signature_witness:
  "unique_signatures (db0 [purchase0 ''sig1'' CONFIRMED (Some 60)])
   \<and> purchase0 ''sig1'' CONFIRMED (Some 60)
       \<in> set (purchases (db0 [purchase0 ''sig1'' CONFIRMED (Some 60)]))
   \<and> transaction_signature (purchase0 ''sig1'' CONFIRMED (Some 60))
       = confirm_transaction_signature (confirm0 ''sig1'')
   \<and> status (purchase0 ''sig1'' CONFIRMED (Some 60)) = CONFIRMED
   \<and> find (\<lambda>l. id_Listing l = confirm_listing_id (confirm0 ''sig1''))
        (listings (db0 [purchase0 ''sig1'' CONFIRMED (Some 60)])) = Some listing0
   \<and> response (confirm_purchase (world_answering (RpcValue (Some (tx_paying 1500000000))))
        (db0 [purchase0 ''sig1'' CONFIRMED (Some 60)]) (confirm0 ''sig1''))
       = Inr (purchase0 ''sig1'' CONFIRMED (Some 60))
   \<and> db_after (confirm_purchase (world_answering (RpcValue (Some (tx_paying 1500000000))))
        (db0 [purchase0 ''sig1'' CONFIRMED (Some 60)]) (confirm0 ''sig1''))
       = db0 [purchase0 ''sig1'' CONFIRMED (Some 60)]
   \<and> verifier_calls (confirm_purchase (world_answering (RpcValue (Some (tx_paying 1500000000))))
        (db0 [purchase0 ''sig1'' CONFIRMED (Some 60)]) (confirm0 ''sig1'')) = []"
proof -
  have a: "unique_signatures (db0 [purchase0 ''sig1'' CONFIRMED (Some 60)])"
    by (simp add: unique_signatures_def db0_def)
  have b: "purchase0 ''sig1'' CONFIRMED (Some 60)
             \<in> set (purchases (db0 [purchase0 ''sig1'' CONFIRMED (Some 60)]))"
    by (simp add: db0_def)
  have c: "transaction_signature (purchase0 ''sig1'' CONFIRMED (Some 60))
             = confirm_transaction_signature (confirm0 ''sig1'')"
    by (simp add: purchase0_def confirm0_def)
  have e: "status (purchase0 ''sig1'' CONFIRMED (Some 60)) = CONFIRMED"
    by (simp add: purchase0_def)
  have f: "find (\<lambda>l. id_Listing l = confirm_listing_id (confirm0 ''sig1''))
             (listings (db0 [purchase0 ''sig1'' CONFIRMED (Some 60)])) = Some listing0"
    by (simp add: db0_def confirm0_def listing0_def)
  from confirm_purchase_confirmed_signature [OF a b c e f] a b c e f show ?thesis
    by simp
qed

text \<open>
  C10 (as stated). The listing lookup stands before the early return. A request that carries
  the signature of a stored \<^verbatim>\<open>CONFIRMED\<close> purchase and a \<^verbatim>\<open>listing_id\<close> that
  differs from the stored one and names no listing is answered with 404, not with the stored
  record.
\<close>

theorem confirm_purchase_fast_path_unknown_listing:
  "response
     (confirm_purchase (world_answering (RpcValue (Some (tx_paying 1500000000))))
        (db_two_listings [purchase0 ''sig1'' CONFIRMED (Some 60)])
        \<lparr>confirm_listing_id = ''L3'', confirm_buyer_wallet = creator0,
         confirm_transaction_signature = ''sig1''\<rparr>)
   = Inl (HTTPException 404 ''Listing not found'')"
  by (simp add: confirm_purchase_def db_two_listings_def listing0_def listing1_def)

text \<open>
  C10 (amended). The early return of \<^verbatim>\<open>confirm_purchase\<close> looks at the signature only.
  When the request's \<^verbatim>\<open>listing_id\<close> names a listing, a request carrying the signature
  of a stored \<^verbatim>\<open>CONFIRMED\<close> purchase gets that purchase back, for every such
  \<^verbatim>\<open>listing_id\<close> and every \<^verbatim>\<open>buyer_wallet\<close> in the request: neither is compared
  with the stored record.
\<close>

theorem confirm_purchase_fast_path_keys_on_signature:
  assumes "unique_signatures d"
    and "p \<in> set (purchases d)"
    and "status p = CONFIRMED"
    and "find (\<lambda>l. id_Listing l = any_listing_id) (listings d) = Some listing"
  shows "response
           (confirm_purchase w d
              \<lparr>confirm_listing_id = any_listing_id, confirm_buyer_wallet = any_buyer_wallet,
               confirm_transaction_signature = transaction_signature p\<rparr>) = Inr p"
proof -
  have "find (\<lambda>q. transaction_signature q = transaction_signature p) (purchases d) = Some p"
    using assms(1,2) by (simp add: unique_signatures_def find_unique_signature)
  with assms(3,4) show ?thesis
    by (simp add: confirm_fast_path)
qed

text \<open>
  A request for listing \<open>L2\<close> by the creator's wallet, carrying the signature under which
  \<open>buyer0\<close> bought \<open>L1\<close>, is answered with the purchase of \<open>L1\<close> by \<open>buyer0\<close>.
\<close>

theorem confirm_purchase_fast_path_keys_on_signature_witness:
  "unique_signatures (db_two_listings [purchase0 ''sig1'' CONFIRMED (Some 60)])
   \<and> purchase0 ''sig1'' CONFIRMED (Some 60)
       \<in> set (purchases (db_two_listings [purchase0 ''sig1'' CONFIRMED (Some 60)]))
   \<and> status (purchase0 ''sig1'' CONFIRMED (Some 60)) = CONFIRMED
   \<and> find (\<lambda>l. id_Listing l = ''L2'')
        (listings (db_two_listings [purchase0 ''sig1'' CONFIRMED (Some 60)])) = Some listing1
   \<and> ''L2'' \<noteq> listing_id (purchase0 ''sig1'' CONFIRMED (Some 60))
   \<and> creator0 \<noteq> buyer_wallet (purchase0 ''sig1'' CONFIRMED (Some 60))
   \<and> response
       (confirm_purchase (world_answering RpcRaises)
          (db_two_listings [purchase0 ''sig1'' CONFIRMED (Some 60)])
          \<lparr>confirm_listing_id = ''L2'', confirm_buyer_wallet = creator0,
           confirm_transaction_signature =
             transaction_signature (purchase0 ''sig1'' CONFIRMED (Some 60))\<rparr>)
     = Inr (purchase0 ''sig1'' CONFIRMED (Some 60))"
proof -
  have a: "unique_signatures (db_two_listings [purchase0 ''sig1'' CONFIRMED (Some 60)])"
    by (simp add: unique_signatures_def db_two_listings_def)
  have b: "purchase0 ''sig1'' CONFIRMED (Some 60)
             \<in> set (purchases (db_two_listings [purchase0 ''sig1'' CONFIRMED (Some 60)]))"
    by (simp add: db_two_listings_def)
  have c: "status (purchase0 ''sig1'' CONFIRMED (Some 60)) = CONFIRMED"
    by (simp add: purchase0_def)
  have e: "find (\<lambda>l. id_Listing l = ''L2'')
             (listings (db_two_listings [purchase0 ''sig1'' CONFIRMED (Some 60)])) = Some listing1"
    by (simp add: db_two_listings_def listing0_def listing1_def)
  have f: "''L2'' \<noteq> listing_id (purchase0 ''sig1'' CONFIRMED (Some 60))"
    by (simp add: purchase0_def)
  have g: "creator0 \<noteq> buyer_wallet (purchase0 ''sig1'' CONFIRMED (Some 60))"
    by (simp add: purchase0_def creator0_def buyer0_def)
  from confirm_purchase_fast_path_keys_on_signature [OF a b c e] a b c e f g show ?thesis
    by simp
qed

text \<open>
  C4 (as stated). After a ledger rejection no purchase is \<^verbatim>\<open>FAILED\<close>. With an empty
  purchase table and a transaction that failed on chain the call answers 400 and the table
  stays empty; with a \<^verbatim>\<open>PENDING\<close> row for the signature and a transaction that pays
  too little the row is still \<^verbatim>\<open>PENDING\<close> afterwards.
\<close>

theorem confirm_purchase_rejection_not_failed:
  "response (confirm_purchase (world_answering (RpcValue (Some (tx_failed_on_chain 1500000000))))
      (db0 []) (confirm0 ''sig1'')) = Inl verification_failed
   \<and> purchases (db_after
        (confirm_purchase (world_answering (RpcValue (Some (tx_failed_on_chain 1500000000))))
           (db0 []) (confirm0 ''sig1''))) = []
   \<and> response (confirm_purchase (world_answering (RpcValue (Some (tx_paying 1000000000))))
        (db0 [purchase0 ''sig1'' PENDING None]) (confirm0 ''sig1'')) = Inl verification_failed
   \<and> map status (purchases (db_after
        (confirm_purchase (world_answering (RpcValue (Some (tx_paying 1000000000))))
           (db0 [purchase0 ''sig1'' PENDING None]) (confirm0 ''sig1'')))) = [PENDING]"
  by (simp add: confirm_purchase_def confirm_verify_def confirm_after_verify_def
      verify_transaction_def verify_transaction_try_def world_answering_def db0_def
      listing0_def confirm0_def purchase0_def tx_failed_on_chain_def tx_paying_def
      transfer_ix_def float_evals buyer0_def creator0_def)

text \<open>
  C4 (amended). When the verification of a call ends in a ledger rejection (the fetched
  transaction executed with an error, or the loop over its instructions finds no match), the
  caller gets the 400 \<open>verification_failed\<close> and the database is left as it was: no row is
  created, the row of the signature keeps its status, nothing becomes \<^verbatim>\<open>FAILED\<close>.
\<close>

theorem confirm_purchase_ledger_rejection:
  assumes "find (\<lambda>l. id_Listing l = confirm_listing_id confirm_data) (listings d) = Some listing"
    and "\<And>e. find (\<lambda>p. transaction_signature p = confirm_transaction_signature confirm_data)
              (purchases d) = Some e \<Longrightarrow> status e \<noteq> CONFIRMED"
    and "get_transaction w (confirm_transaction_signature confirm_data) = RpcValue (Some t)"
    and "ledger_rejects t (confirm_buyer_wallet confirm_data) (creator_wallet listing)
           (price_sol listing)"
  shows "response (confirm_purchase w d confirm_data) = Inl verification_failed
       \<and> db_after (confirm_purchase w d confirm_data) = d
       \<and> verifier_calls (confirm_purchase w d confirm_data)
           = [confirm_transaction_signature confirm_data]"
proof -
  have "\<not> verify_transaction w (confirm_transaction_signature confirm_data)
            (confirm_buyer_wallet confirm_data) (creator_wallet listing) (price_sol listing)"
    using assms(3,4) by (rule verify_transaction_rejects)
  moreover have "confirm_purchase w d confirm_data =
      confirm_verify w d confirm_data listing
        (find (\<lambda>p. transaction_signature p = confirm_transaction_signature confirm_data)
           (purchases d))"
    using assms(1,2) by (intro confirm_slow_path) auto
  ultimately show ?thesis
    by (simp add: confirm_verify_rejected)
qed

theorem confirm_purchase_ledger_rejection_witness:
  "find (\<lambda>l. id_Listing l = confirm_listing_id (confirm0 ''sig1''))
     (listings (db0 [purchase0 ''sig1'' PENDING None])) = Some listing0
   \<and> find (\<lambda>p. transaction_signature p = confirm_transaction_signature (confirm0 ''sig1''))
       (purchases (db0 [purchase0 ''sig1'' PENDING None])) = Some (purchase0 ''sig1'' PENDING None)
   \<and> status (purchase0 ''sig1'' PENDING None) \<noteq> CONFIRMED
   \<and> get_transaction (world_answering (RpcValue (Some (tx_paying 1000000000))))
       (confirm_transaction_signature (confirm0 ''sig1''))
       = RpcValue (Some (tx_paying 1000000000))
   \<and> ledger_rejects (tx_paying 1000000000) (confirm_buyer_wallet (confirm0 ''sig1''))
       (creator_wallet listing0) (price_sol listing0)
   \<and> response (confirm_purchase (world_answering (RpcValue (Some (tx_paying 1000000000))))
        (db0 [purchase0 ''sig1'' PENDING None]) (confirm0 ''sig1'')) = Inl verification_failed
   \<and> db_after (confirm_purchase (world_answering (RpcValue (Some (tx_paying 1000000000))))
        (db0 [purchase0 ''sig1'' PENDING None]) (confirm0 ''sig1''))
       = db0 [purchase0 ''sig1'' PENDING None]
   \<and> verifier_calls (confirm_purchase (world_answering (RpcValue (Some (tx_paying 1000000000))))
        (db0 [purchase0 ''sig1'' PENDING None]) (confirm0 ''sig1'')) = [''sig1'']"
proof -
  have a: "find (\<lambda>l. id_Listing l = confirm_listing_id (confirm0 ''sig1''))
             (listings (db0 [purchase0 ''sig1'' PENDING None])) = Some listing0"
    by (simp add: db0_def confirm0_def listing0_def)
  have b: "find (\<lambda>p. transaction_signature p = confirm_transaction_signature (confirm0 ''sig1''))
             (purchases (db0 [purchase0 ''sig1'' PENDING None]))
           = Some (purchase0 ''sig1'' PENDING None)"
    by (simp add: db0_def confirm0_def purchase0_def)
  have c: "status (purchase0 ''sig1'' PENDING None) \<noteq> CONFIRMED"
    by (simp add: purchase0_def)
  have e: "get_transaction (world_answering (RpcValue (Some (tx_paying 1000000000))))
             (confirm_transaction_signature (confirm0 ''sig1''))
           = RpcValue (Some (tx_paying 1000000000))"
    by (simp add: world_answering_def)
  have f: "ledger_rejects (tx_paying 1000000000) (confirm_buyer_wallet (confirm0 ''sig1''))
             (creator_wallet listing0) (price_sol listing0)"
    by (simp add: ledger_rejects_def tx_paying_def transfer_ix_def float_evals
        listing0_def confirm0_def)
  have g: "confirm_transaction_signature (confirm0 ''sig1'') = ''sig1''"
    by (simp add: confirm0_def)
  from b c have b': "\<And>e. find (\<lambda>p. transaction_signature p
        = confirm_transaction_signature (confirm0 ''sig1''))
          (purchases (db0 [purchase0 ''sig1'' PENDING None])) = Some e
        \<Longrightarrow> status e \<noteq> CONFIRMED"
    by simp
  from confirm_purchase_ledger_rejection [OF a b' e f] a b c e f g show ?thesis
    by simp
qed

text \<open>
  C7 (as stated). A \<^verbatim>\<open>FAILED\<close> purchase is verified again when the call is repeated
  with the same listing, buyer and signature: the ledger is asked, and when it now shows a
  matching transfer the same row becomes \<^verbatim>\<open>CONFIRMED\<close>.
\<close>

theorem confirm_purchase_failed_is_reverified:
  "verifier_calls (confirm_purchase (world_answering (RpcValue (Some (tx_paying 1500000000))))
      (db0 [purchase0 ''sig1'' FAILED None]) (confirm0 ''sig1'')) = [''sig1'']
   \<and> response (confirm_purchase (world_answering (RpcValue (Some (tx_paying 1500000000))))
        (db0 [purchase0 ''sig1'' FAILED None]) (confirm0 ''sig1''))
       = Inr (purchase0 ''sig1'' CONFIRMED (Some 100))
   \<and> purchases (db_after
        (confirm_purchase (world_answering (RpcValue (Some (tx_paying 1500000000))))
           (db0 [purchase0 ''sig1'' FAILED None]) (confirm0 ''sig1'')))
       = [purchase0 ''sig1'' CONFIRMED (Some 100)]"
  by (simp add: confirm_purchase_def confirm_verify_def confirm_after_verify_def
      verify_transaction_def verify_transaction_try_def world_answering_def db0_def
      listing0_def confirm0_def purchase0_def tx_paying_def transfer_ix_def
      float_evals)

text \<open>
  C7 (amended). In a database with unique signatures that holds a \<^verbatim>\<open>FAILED\<close> purchase
  with signature \<open>s\<close>, a call carrying \<open>s\<close> whose listing is found runs the verifier again.
  When the verifier rejects, the caller gets the 400 \<open>verification_failed\<close> and the
  database is unchanged, so the row stays \<^verbatim>\<open>FAILED\<close>. When the verifier accepts, that
  row becomes \<^verbatim>\<open>CONFIRMED\<close> with \<^verbatim>\<open>confirmed_at\<close> set, is returned, and no row
  is added.
\<close>

theorem confirm_purchase_failed_signature:
  assumes "unique_signatures d"
    and "p \<in> set (purchases d)"
    and "transaction_signature p = confirm_transaction_signature confirm_data"
    and "status p = FAILED"
    and "find (\<lambda>l. id_Listing l = confirm_listing_id confirm_data) (listings d) = Some listing"
  shows "verifier_calls (confirm_purchase w d confirm_data)
           = [confirm_transaction_signature confirm_data]
       \<and> (\<not> verify_transaction w (confirm_transaction_signature confirm_data)
              (confirm_buyer_wallet confirm_data) (creator_wallet listing) (price_sol listing)
            \<longrightarrow> response (confirm_purchase w d confirm_data) = Inl verification_failed
              \<and> db_after (confirm_purchase w d confirm_data) = d)
       \<and> (verify_transaction w (confirm_transaction_signature confirm_data)
              (confirm_buyer_wallet confirm_data) (creator_wallet listing) (price_sol listing)
            \<longrightarrow> response (confirm_purchase w d confirm_data)
                  = Inr (p\<lparr>status := CONFIRMED, confirmed_at := Some (utcnow w)\<rparr>)
              \<and> filter (\<lambda>q. transaction_signature q = confirm_transaction_signature confirm_data)
                  (purchases (db_after (confirm_purchase w d confirm_data)))
                  = [p\<lparr>status := CONFIRMED, confirmed_at := Some (utcnow w)\<rparr>]
              \<and> length (purchases (db_after (confirm_purchase w d confirm_data)))
                  = length (purchases d))"
proof -
  let ?s = "confirm_transaction_signature confirm_data"
  have dist: "distinct (map transaction_signature (purchases d))"
    using assms(1) by (simp add: unique_signatures_def)
  have found: "find (\<lambda>q. transaction_signature q = ?s) (purchases d) = Some p"
    using dist assms(2,3) by (rule find_unique_signature)
  have slow: "confirm_purchase w d confirm_data = confirm_verify w d confirm_data listing (Some p)"
    using assms(5) found assms(4) by (intro confirm_slow_path) auto
  have calls: "verifier_calls (confirm_purchase w d confirm_data) = [?s]"
    by (simp add: slow confirm_verify_def Let_def)
  have filt: "filter (\<lambda>q. transaction_signature q = ?s)
      (update_first (\<lambda>q. transaction_signature q = ?s)
         (\<lambda>q. q\<lparr>status := CONFIRMED, confirmed_at := Some (utcnow w)\<rparr>) (purchases d))
      = [p\<lparr>status := CONFIRMED, confirmed_at := Some (utcnow w)\<rparr>]"
    using dist found by (rule update_first_filter) (simp add: assms(3))
  show ?thesis
    using calls filt by (simp add: slow confirm_verify_rejected confirm_verify_accepted_existing)
qed

theorem confirm_purchase_failed_signature_witness:
  "unique_signatures (db0 [purchase0 ''sig1'' FAILED None])
   \<and> purchase0 ''sig1'' FAILED None \<in> set (purchases (db0 [purchase0 ''sig1'' FAILED None]))
   \<and> transaction_signature (purchase0 ''sig1'' FAILED None)
       = confirm_transaction_signature (confirm0 ''sig1'')
   \<and> status (purchase0 ''sig1'' FAILED None) = FAILED
   \<and> find (\<lambda>l. id_Listing l = confirm_listing_id (confirm0 ''sig1''))
        (listings (db0 [purchase0 ''sig1'' FAILED None])) = Some listing0
   \<and> verify_transaction (world_answering (RpcValue (Some (tx_paying 1500000000))))
        (confirm_transaction_signature (confirm0 ''sig1'')) (confirm_buyer_wallet (confirm0 ''sig1''))
        (creator_wallet listing0) (price_sol listing0)
   \<and> \<not> verify_transaction (world_answering (RpcValue (Some (tx_paying 1000000000))))
        (confirm_transaction_signature (confirm0 ''sig1'')) (confirm_buyer_wallet (confirm0 ''sig1''))
        (creator_wallet listing0) (price_sol listing0)
   \<and> verifier_calls (confirm_purchase (world_answering (RpcValue (Some (tx_paying 1500000000))))
        (db0 [purchase0 ''sig1'' FAILED None]) (confirm0 ''sig1''))
       = [confirm_transaction_signature (confirm0 ''sig1'')]
   \<and> response (confirm_purchase (world_answering (RpcValue (Some (tx_paying 1500000000))))
        (db0 [purchase0 ''sig1'' FAILED None]) (confirm0 ''sig1''))
       = Inr ((purchase0 ''sig1'' FAILED None)\<lparr>status := CONFIRMED, confirmed_at := Some 100\<rparr>)
   \<and> response (confirm_purchase (world_answering (RpcValue (Some (tx_paying 1000000000))))
        (db0 [purchase0 ''sig1'' FAILED None]) (confirm0 ''sig1'')) = Inl verification_failed
   \<and> db_after (confirm_purchase (world_answering (RpcValue (Some (tx_paying 1000000000))))
        (db0 [purchase0 ''sig1'' FAILED None]) (confirm0 ''sig1''))
       = db0 [purchase0 ''sig1'' FAILED None]"
proof -
  let ?d = "db0 [purchase0 ''sig1'' FAILED None]"
  let ?good = "world_answering (RpcValue (Some (tx_paying 1500000000)))"
  let ?bad = "world_answering (RpcValue (Some (tx_paying 1000000000)))"
  have a: "unique_signatures ?d"
    by (simp add: unique_signatures_def db0_def)
  have b: "purchase0 ''sig1'' FAILED None \<in> set (purchases ?d)"
    by (simp add: db0_def)
  have c: "transaction_signature (purchase0 ''sig1'' FAILED None)
             = confirm_transaction_signature (confirm0 ''sig1'')"
    by (simp add: purchase0_def confirm0_def)
  have e: "status (purchase0 ''sig1'' FAILED None) = FAILED"
    by (simp add: purchase0_def)
  have f: "find (\<lambda>l. id_Listing l = confirm_listing_id (confirm0 ''sig1'')) (listings ?d)
             = Some listing0"
    by (simp add: db0_def confirm0_def listing0_def)
  have g: "verify_transaction ?good (confirm_transaction_signature (confirm0 ''sig1''))
             (confirm_buyer_wallet (confirm0 ''sig1'')) (creator_wallet listing0)
             (price_sol listing0)"
    by (simp add: verify_transaction_def verify_transaction_try_def world_answering_def
        tx_paying_def transfer_ix_def float_evals listing0_def confirm0_def)
  have h: "\<not> verify_transaction ?bad (confirm_transaction_signature (confirm0 ''sig1''))
             (confirm_buyer_wallet (confirm0 ''sig1'')) (creator_wallet listing0)
             (price_sol listing0)"
    by (simp add: verify_transaction_def verify_transaction_try_def world_answering_def
        tx_paying_def transfer_ix_def float_evals listing0_def confirm0_def)
  have now: "utcnow ?good = 100"
    by (simp add: world_answering_def)
  from confirm_purchase_failed_signature [OF a b c e f, of ?good]
       confirm_purchase_failed_signature [OF a b c e f, of ?bad]
       a b c e f g h now
  show ?thesis
    by simp
qed

text \<open>
  C1. From the empty purchase table, a first call stores a \<^verbatim>\<open>CONFIRMED\<close> purchase of
  listing \<open>L1\<close> by \<open>buyer0\<close> under \<open>sig1\<close>. \<open>initiate_purchase\<close> then answers 409
  for the pair, but \<open>confirm_purchase\<close> with a second signature has no such check: it awaits
  the verifier on \<open>sig2\<close>, and as the ledger shows a matching transfer it stores a second
  \<^verbatim>\<open>CONFIRMED\<close> purchase for the same listing and buyer.
\<close>

theorem confirm_purchase_owner_confirms_again:
  "db_after (confirm_purchase (world_answering (RpcValue (Some (tx_paying 1500000000))))
      (db0 []) (confirm0 ''sig1'')) = db0 [purchase_created ''uuid-2'' ''sig1'' 100]
   \<and> fst (initiate_purchase (world_later (RpcValue (Some (tx_paying 1500000000))))
        (db0 [purchase_created ''uuid-2'' ''sig1'' 100])
        \<lparr>create_listing_id = ''L1'', create_buyer_wallet = buyer0\<rparr>)
       = Inl (HTTPException 409 ''You already own this artwork'')
   \<and> verifier_calls (confirm_purchase (world_later (RpcValue (Some (tx_paying 1500000000))))
        (db0 [purchase_created ''uuid-2'' ''sig1'' 100]) (confirm0 ''sig2'')) = [''sig2'']
   \<and> response (confirm_purchase (world_later (RpcValue (Some (tx_paying 1500000000))))
        (db0 [purchase_created ''uuid-2'' ''sig1'' 100]) (confirm0 ''sig2''))
       = Inr (purchase_created ''uuid-3'' ''sig2'' 200)
   \<and> confirmed_for
        (db_after (confirm_purchase (world_later (RpcValue (Some (tx_paying 1500000000))))
           (db0 [purchase_created ''uuid-2'' ''sig1'' 100]) (confirm0 ''sig2''))) ''L1'' buyer0
       = [purchase_created ''uuid-2'' ''sig1'' 100, purchase_created ''uuid-3'' ''sig2'' 200]"
proof -
  let ?w = "world_answering (RpcValue (Some (tx_paying 1500000000)))"
  let ?v = "world_later (RpcValue (Some (tx_paying 1500000000)))"
  let ?d = "db0 [purchase_created ''uuid-2'' ''sig1'' 100]"
  have first: "db_after (confirm_purchase ?w (db0 []) (confirm0 ''sig1'')) = ?d"
    by (simp add: confirm_purchase_def confirm_verify_def confirm_after_verify_def
        verify_transaction_def verify_transaction_try_def world_answering_def db0_def
        listing0_def confirm0_def purchase_created_def tx_paying_def transfer_ix_def
        float_evals Let_def)
  have valid: "is_valid_solana_address buyer0"
    by (simp add: is_valid_solana_address_def buyer0_def base58_alphabet_def)
  have init: "fst (initiate_purchase ?v ?d
                \<lparr>create_listing_id = ''L1'', create_buyer_wallet = buyer0\<rparr>)
     = Inl (HTTPException 409 ''You already own this artwork'')"
    using valid by (simp add: initiate_purchase_def db0_def listing0_def purchase_created_def)
  have conf: "confirm_purchase ?v ?d (confirm0 ''sig2'') =
      \<lparr>response = Inr (purchase_created ''uuid-3'' ''sig2'' 200),
       db_after = db0 [purchase_created ''uuid-2'' ''sig1'' 100,
                       purchase_created ''uuid-3'' ''sig2'' 200],
       verifier_calls = [''sig2'']\<rparr>"
    by (simp add: confirm_purchase_def confirm_verify_def confirm_after_verify_def
        verify_transaction_def verify_transaction_try_def world_answering_def
        world_later_def db0_def listing0_def confirm0_def purchase_created_def tx_paying_def
        transfer_ix_def float_evals Let_def)
  have owned: "confirmed_for (db0 [purchase_created ''uuid-2'' ''sig1'' 100,
                       purchase_created ''uuid-3'' ''sig2'' 200]) ''L1'' buyer0
       = [purchase_created ''uuid-2'' ''sig1'' 100, purchase_created ''uuid-3'' ''sig2'' 200]"
    by (simp add: confirmed_for_def db0_def purchase_created_def)
  show ?thesis
    by (simp add: first init conf owned)
qed

text \<open>
  C2 (as stated). With no purchase stored for the signature, a call during which the ledger
  does not yet show the transaction, and a call during which the RPC request raises (a
  timeout, a transport failure), both answer the 400 \<open>verification_failed\<close> of a rejection
  and store nothing: no \<^verbatim>\<open>PENDING\<close> purchase is created.
\<close>

theorem confirm_purchase_no_pending_created:
  "response (confirm_purchase (world_answering (RpcValue None)) (db0 []) (confirm0 ''sig1''))
     = Inl verification_failed
   \<and> purchases (db_after
        (confirm_purchase (world_answering (RpcValue None)) (db0 []) (confirm0 ''sig1''))) = []
   \<and> response (confirm_purchase (world_answering RpcRaises) (db0 []) (confirm0 ''sig1''))
       = Inl verification_failed
   \<and> purchases (db_after
        (confirm_purchase (world_answering RpcRaises) (db0 []) (confirm0 ''sig1''))) = []"
  by (simp add: confirm_purchase_def confirm_verify_def confirm_after_verify_def
      verify_transaction_def verify_transaction_try_def world_answering_def db0_def
      listing0_def confirm0_def)

text \<open>
  C2 (amended). In a database with unique signatures, take a call whose listing is found,
  whose signature has no purchase or a \<^verbatim>\<open>PENDING\<close> one, and during which the ledger
  does not yet show the transaction. The caller gets the 400 \<open>verification_failed\<close> and the
  database is left as it was: a \<^verbatim>\<open>PENDING\<close> purchase stays \<^verbatim>\<open>PENDING\<close>, none is
  created. A second call with the same request, made when the verifier accepts, returns a
  \<^verbatim>\<open>CONFIRMED\<close> purchase with that signature, and it is then the only purchase with
  that signature.
\<close>

theorem confirm_purchase_not_yet_visible_then_retry:
  assumes "unique_signatures d"
    and "find (\<lambda>l. id_Listing l = confirm_listing_id confirm_data) (listings d) = Some listing"
    and "\<And>e. find (\<lambda>p. transaction_signature p = confirm_transaction_signature confirm_data)
              (purchases d) = Some e \<Longrightarrow> status e = PENDING"
    and "get_transaction w (confirm_transaction_signature confirm_data) = RpcValue None"
    and "verify_transaction w' (confirm_transaction_signature confirm_data)
           (confirm_buyer_wallet confirm_data) (creator_wallet listing) (price_sol listing)"
  shows "response (confirm_purchase w d confirm_data) = Inl verification_failed
       \<and> db_after (confirm_purchase w d confirm_data) = d
       \<and> (\<exists>p. response (confirm_purchase w' (db_after (confirm_purchase w d confirm_data))
                  confirm_data) = Inr p
              \<and> status p = CONFIRMED
              \<and> confirmed_at p = Some (utcnow w')
              \<and> filter (\<lambda>q. transaction_signature q
                               = confirm_transaction_signature confirm_data)
                  (purchases (db_after (confirm_purchase w'
                     (db_after (confirm_purchase w d confirm_data)) confirm_data))) = [p])"
proof -
  let ?s = "confirm_transaction_signature confirm_data"
  let ?ex = "find (\<lambda>p. transaction_signature p = ?s) (purchases d)"
  have slow: "confirm_purchase v d confirm_data = confirm_verify v d confirm_data listing ?ex"
    for v
    using assms(2) by (rule confirm_slow_path) (use assms(3) in auto)
  have rej: "\<not> verify_transaction w ?s (confirm_buyer_wallet confirm_data)
                 (creator_wallet listing) (price_sol listing)"
    using assms(4) by (rule verify_transaction_not_visible)
  have first: "response (confirm_purchase w d confirm_data) = Inl verification_failed
       \<and> db_after (confirm_purchase w d confirm_data) = d"
    using rej by (simp add: slow confirm_verify_rejected)
  have dist: "distinct (map transaction_signature (purchases d))"
    using assms(1) by (simp add: unique_signatures_def)
  have second: "\<exists>p. response (confirm_purchase w' d confirm_data) = Inr p
              \<and> status p = CONFIRMED
              \<and> confirmed_at p = Some (utcnow w')
              \<and> filter (\<lambda>q. transaction_signature q = ?s)
                  (purchases (db_after (confirm_purchase w' d confirm_data))) = [p]"
  proof (cases ?ex)
    case None
    then show ?thesis
      using assms(5) by (simp add: slow confirm_verify_accepted_new find_None_filter)
  next
    case (Some e)
    have "transaction_signature e = ?s"
      using Some by (auto simp: find_Some_iff)
    then have "filter (\<lambda>q. transaction_signature q = ?s)
        (update_first (\<lambda>q. transaction_signature q = ?s)
           (\<lambda>q. q\<lparr>status := CONFIRMED, confirmed_at := Some (utcnow w')\<rparr>) (purchases d))
        = [e\<lparr>status := CONFIRMED, confirmed_at := Some (utcnow w')\<rparr>]"
      using dist Some by (intro update_first_filter) auto
    then show ?thesis
      using assms(5) Some by (simp add: slow confirm_verify_accepted_existing)
  qed
  from first second show ?thesis
    by simp
qed

theorem confirm_purchase_not_yet_visible_then_retry_witness:
  "unique_signatures (db0 [purchase0 ''sig1'' PENDING None])
   \<and> find (\<lambda>l. id_Listing l = confirm_listing_id (confirm0 ''sig1''))
       (listings (db0 [purchase0 ''sig1'' PENDING None])) = Some listing0
   \<and> find (\<lambda>p. transaction_signature p = confirm_transaction_signature (confirm0 ''sig1''))
       (purchases (db0 [purchase0 ''sig1'' PENDING None])) = Some (purchase0 ''sig1'' PENDING None)
   \<and> status (purchase0 ''sig1'' PENDING None) = PENDING
   \<and> get_transaction (world_answering (RpcValue None))
       (confirm_transaction_signature (confirm0 ''sig1'')) = RpcValue None
   \<and> verify_transaction (world_answering (RpcValue (Some (tx_paying 1500000000))))
       (confirm_transaction_signature (confirm0 ''sig1'')) (confirm_buyer_wallet (confirm0 ''sig1''))
       (creator_wallet listing0) (price_sol listing0)
   \<and> response (confirm_purchase (world_answering (RpcValue None))
        (db0 [purchase0 ''sig1'' PENDING None]) (confirm0 ''sig1'')) = Inl verification_failed
   \<and> db_after (confirm_purchase (world_answering (RpcValue None))
        (db0 [purchase0 ''sig1'' PENDING None]) (confirm0 ''sig1''))
       = db0 [purchase0 ''sig1'' PENDING None]
   \<and> (\<exists>p. response (confirm_purchase (world_answering (RpcValue (Some (tx_paying 1500000000))))
              (db_after (confirm_purchase (world_answering (RpcValue None))
                 (db0 [purchase0 ''sig1'' PENDING None]) (confirm0 ''sig1'')))
              (confirm0 ''sig1'')) = Inr p
          \<and> status p = CONFIRMED
          \<and> confirmed_at p
              = Some (utcnow (world_answering (RpcValue (Some (tx_paying 1500000000)))))
          \<and> filter (\<lambda>q. transaction_signature q
                           = confirm_transaction_signature (confirm0 ''sig1''))
              (purchases (db_after
                 (confirm_purchase (world_answering (RpcValue (Some (tx_paying 1500000000))))
                    (db_after (confirm_purchase (world_answering (RpcValue None))
                       (db0 [purchase0 ''sig1'' PENDING None]) (confirm0 ''sig1'')))
                    (confirm0 ''sig1'')))) = [p])"
proof -
  let ?d = "db0 [purchase0 ''sig1'' PENDING None]"
  have a: "unique_signatures ?d"
    by (simp add: unique_signatures_def db0_def)
  have b: "find (\<lambda>l. id_Listing l = confirm_listing_id (confirm0 ''sig1'')) (listings ?d)
             = Some listing0"
    by (simp add: db0_def confirm0_def listing0_def)
  have c: "find (\<lambda>p. transaction_signature p = confirm_transaction_signature (confirm0 ''sig1''))
             (purchases ?d) = Some (purchase0 ''sig1'' PENDING None)"
    by (simp add: db0_def confirm0_def purchase0_def)
  have e: "status (purchase0 ''sig1'' PENDING None) = PENDING"
    by (simp add: purchase0_def)
  have f: "get_transaction (world_answering (RpcValue None))
             (confirm_transaction_signature (confirm0 ''sig1'')) = RpcValue None"
    by (simp add: world_answering_def)
  have g: "verify_transaction (world_answering (RpcValue (Some (tx_paying 1500000000))))
             (confirm_transaction_signature (confirm0 ''sig1''))
             (confirm_buyer_wallet (confirm0 ''sig1'')) (creator_wallet listing0)
             (price_sol listing0)"
    by (simp add: verify_transaction_def verify_transaction_try_def world_answering_def
        tx_paying_def transfer_ix_def float_evals listing0_def confirm0_def)
  from c e have c': "\<And>e. find (\<lambda>p. transaction_signature p
        = confirm_transaction_signature (confirm0 ''sig1'')) (purchases ?d) = Some e
        \<Longrightarrow> status e = PENDING"
    by simp
  from confirm_purchase_not_yet_visible_then_retry [OF a b c' f g] a b c e f g
  show ?thesis
    by blast
qed

text \<open>
  C3 (as stated). The claim fails in both directions.
  \<^item> 2000 lamports are the double \<open>0.000002\<close>; against an expected amount that is the
    double \<open>0.000001\<close> the computed difference is the double \<open>0.000001\<close>, equal to the
    tolerance, and the transfer is rejected: the comparison is strict.
  \<^item> 1500001000 lamports are exactly \<open>1e-6\<close> SOL more than the expected 1.5 SOL, a
    difference not below the epsilon, and the transfer is accepted: the division rounds
    the amount down, and the computed difference is below the tolerance.
\<close>

theorem verify_transaction_difference_of_epsilon:
  "lamports_to_sol 2000 = Inr (float_round (2 / 1000000))
   \<and> float_round (float_round (2 / 1000000) - float_round (1 / 1000000))
       = float_round (1 / 1000000)
   \<and> verify_transaction (world_answering (RpcValue (Some (tx_paying 2000)))) ''sig1''
       buyer0 creator0 (float_round (1 / 1000000)) = False
   \<and> \<bar>real_of_int 1500001000 / 1000000000 - 3 / 2\<bar> = 1 / 1000000
   \<and> verify_transaction (world_answering (RpcValue (Some (tx_paying 1500001000)))) ''sig1''
       buyer0 creator0 (3 / 2) = True"
proof -
  have r: "\<not> verify_transaction (world_answering (RpcValue (Some (tx_paying 2000)))) ''sig1''
       buyer0 creator0 (float_round (1 / 1000000))"
    unfolding verify_transaction_tx_paying [OF lamports_to_sol_2000] float_round_diff_2e_6
    by (simp add: float_round_tolerance)
  have a: "verify_transaction (world_answering (RpcValue (Some (tx_paying 1500001000)))) ''sig1''
       buyer0 creator0 (3 / 2)"
    unfolding verify_transaction_tx_paying [OF lamports_to_sol_1500001000]
      float_round_diff_1_500001
    by (simp add: float_round_tolerance)
  have d: "\<bar>real_of_int 1500001000 / 1000000000 - 3 / 2\<bar> = 1 / 1000000"
    by simp
  from lamports_to_sol_2000 float_round_diff_2e_6 r d a show ?thesis
    by (simp only: simp_thms)
qed

text \<open>
  C3 (amended). All arithmetic is that of IEEE doubles. For every fetched transaction
  without execution error, verification accepts exactly when some instruction is a transfer
  from the expected sender to the expected receiver whose computed difference, the rounded
  amount minus the expected amount, rounded, in absolute value, is strictly below the double
  \<open>0.000001\<close>, and no instruction before it makes the loop raise. A transaction in which
  every transfer from the expected sender to the expected receiver carries lamports from 0
  to below \<open>2 ^ 64\<close> and an exact amount that differs from the expected one by \<open>1e-5\<close> or more is
  rejected. A difference of exactly \<open>1e-6\<close> is accepted or rejected as the rounding falls.
\<close>

theorem verify_transaction_amount_tolerance:
  assumes "get_transaction w signature = RpcValue (Some t)"
    and "meta t = Some m"
    and "err m = None"
  shows "(verify_transaction w signature sender receiver amount
          \<longleftrightarrow> (\<exists>i l a. i < length (instructions t)
                 \<and> instructions t ! i = transfer_ix sender receiver l
                 \<and> lamports_to_sol l = Inr a
                 \<and> \<bar>float_round (a - amount)\<bar> < float_round (1 / 1000000)
                 \<and> (\<forall>j<i. \<not> instruction_raises (instructions t ! j))))
       \<and> ((\<forall>l. transfer_ix sender receiver l \<in> set (instructions t)
                \<longrightarrow> 0 \<le> l \<and> l < 2 ^ 64
                  \<and> 1 / 100000 \<le> \<bar>real_of_int l / 1000000000 - amount\<bar>)
            \<longrightarrow> \<not> verify_transaction w signature sender receiver amount)"
proof -
  have iff: "verify_transaction w signature sender receiver amount
          \<longleftrightarrow> (\<exists>i l a. i < length (instructions t)
                 \<and> instructions t ! i = transfer_ix sender receiver l
                 \<and> lamports_to_sol l = Inr a
                 \<and> \<bar>float_round (a - amount)\<bar> < float_round (1 / 1000000)
                 \<and> (\<forall>j<i. \<not> instruction_raises (instructions t ! j)))"
    unfolding verify_transaction_scan [OF assms] by (rule scan_instructions_accepts_iff)
  have far: "\<not> verify_transaction w signature sender receiver amount"
    if h: "\<forall>l. transfer_ix sender receiver l \<in> set (instructions t)
                \<longrightarrow> 0 \<le> l \<and> l < 2 ^ 64
                  \<and> 1 / 100000 \<le> \<bar>real_of_int l / 1000000000 - amount\<bar>"
  proof
    assume "verify_transaction w signature sender receiver amount"
    with iff obtain i l a where i: "i < length (instructions t)"
        "instructions t ! i = transfer_ix sender receiver l" "lamports_to_sol l = Inr a"
        "\<bar>float_round (a - amount)\<bar> < float_round (1 / 1000000)"
      by blast
    from i(1,2) have "transfer_ix sender receiver l \<in> set (instructions t)"
      by (metis nth_mem)
    with h have "0 \<le> l" "l < 2 ^ 64"
        "1 / 100000 \<le> \<bar>real_of_int l / 1000000000 - amount\<bar>"
      by blast+
    from far_amount_outside_tolerance [OF this i(3)] i(4) show False
      by blast
  qed
  from iff far show ?thesis
    by blast
qed

text \<open>
  Against 1.5 SOL: a transfer of 1.5000009 SOL standing third in the instruction list is
  accepted, and a transfer of 1.50001 SOL, a difference of \<open>1e-5\<close>, is rejected.
\<close>

theorem verify_transaction_amount_tolerance_witness:
  "get_transaction (world_answering (RpcValue (Some (tx_paying_third 1500000900)))) ''sig1''
     = RpcValue (Some (tx_paying_third 1500000900))
   \<and> meta (tx_paying_third 1500000900) = Some \<lparr>err = None\<rparr>
   \<and> err \<lparr>err = None\<rparr> = None
   \<and> instructions (tx_paying_third 1500000900) ! 2 = transfer_ix buyer0 creator0 1500000900
   \<and> lamports_to_sol 1500000900 = Inr (float_round (15000009 / 10000000))
   \<and> \<bar>float_round (float_round (15000009 / 10000000) - 3 / 2)\<bar> < float_round (1 / 1000000)
   \<and> \<not> instruction_raises (instructions (tx_paying_third 1500000900) ! 0)
   \<and> \<not> instruction_raises (instructions (tx_paying_third 1500000900) ! 1)
   \<and> verify_transaction
        (world_answering (RpcValue (Some (tx_paying_third 1500000900)))) ''sig1''
        buyer0 creator0 (3 / 2)
   \<and> instructions (tx_paying 1500010000) = [transfer_ix buyer0 creator0 1500010000]
   \<and> (0::int) \<le> 1500010000 \<and> (1500010000::int) < 2 ^ 64
   \<and> 1 / 100000 \<le> \<bar>real_of_int 1500010000 / 1000000000 - 3 / 2\<bar>
   \<and> \<not> verify_transaction
        (world_answering (RpcValue (Some (tx_paying 1500010000)))) ''sig1''
        buyer0 creator0 (3 / 2)"
proof -
  have g: "get_transaction (world_answering (RpcValue (Some u))) ''sig1'' = RpcValue (Some u)"
    for u
    by (simp add: world_answering_def)
  have m3: "meta (tx_paying_third 1500000900) = Some \<lparr>err = None\<rparr>"
    by (simp add: tx_paying_third_def)
  have m1: "meta (tx_paying 1500010000) = Some \<lparr>err = None\<rparr>"
    by (simp add: tx_paying_def)
  have e: "err \<lparr>err = None\<rparr> = None"
    by simp
  have len: "2 < length (instructions (tx_paying_third 1500000900))"
    by (simp add: tx_paying_third_def)
  have i2: "instructions (tx_paying_third 1500000900) ! 2
      = transfer_ix buyer0 creator0 1500000900"
    by (simp add: tx_paying_third_def)
  have tol: "\<bar>float_round (float_round (15000009 / 10000000) - 3 / 2)\<bar>
      < float_round (1 / 1000000)"
    unfolding float_round_diff_1_5000009 by (simp add: float_round_tolerance)
  have n0: "\<not> instruction_raises (instructions (tx_paying_third 1500000900) ! 0)"
    by (simp add: tx_paying_third_def instruction_raises_def)
  have n1: "\<not> instruction_raises (instructions (tx_paying_third 1500000900) ! 1)"
    by (simp add: tx_paying_third_def instruction_raises_def transfer_ix_def
        lamports_to_sol_1500000900)
  have before: "\<forall>j<2. \<not> instruction_raises (instructions (tx_paying_third 1500000900) ! j)"
    using n0 n1 by (auto simp: less_Suc_eq numeral_2_eq_2)
  have i1: "instructions (tx_paying 1500010000) = [transfer_ix buyer0 creator0 1500010000]"
    by (simp add: tx_paying_def)
  have b: "(0::int) \<le> 1500010000" "(1500010000::int) < 2 ^ 64"
      "1 / 100000 \<le> \<bar>real_of_int 1500010000 / 1000000000 - 3 / 2\<bar>"
    by simp_all
  have inj: "transfer_ix buyer0 creator0 l = transfer_ix buyer0 creator0 1500010000
      \<longleftrightarrow> l = 1500010000" for l
    by (simp add: transfer_ix_def)
  have h: "\<forall>l. transfer_ix buyer0 creator0 l \<in> set (instructions (tx_paying 1500010000))
                \<longrightarrow> 0 \<le> l \<and> l < 2 ^ 64
                  \<and> 1 / 100000 \<le> \<bar>real_of_int l / 1000000000 - 3 / 2\<bar>"
    using b by (simp add: i1 inj)
  from verify_transaction_amount_tolerance [OF g m3 e, of buyer0 creator0 "3 / 2"]
       len i2 lamports_to_sol_1500000900 tol before
  have acc: "verify_transaction
        (world_answering (RpcValue (Some (tx_paying_third 1500000900)))) ''sig1''
        buyer0 creator0 (3 / 2)"
    by blast
  from verify_transaction_amount_tolerance [OF g m1 e, of buyer0 creator0 "3 / 2"] h
  have rej: "\<not> verify_transaction
        (world_answering (RpcValue (Some (tx_paying 1500010000)))) ''sig1''
        buyer0 creator0 (3 / 2)"
    by blast
  from g m3 e i2 lamports_to_sol_1500000900 tol n0 n1 acc i1 b rej show ?thesis
    by (intro conjI)
qed

text \<open>
  C6 (as stated). The listing costs 1.5 SOL when the purchase is initiated, and
  \<open>initiate_purchase\<close> returns the amount 1.5 SOL (1500000000 lamports). The price is then
  changed to 1.5000001 SOL. The buyer transfers the 1500000000 lamports and confirms: the
  verifier compares the transfer with the new price, accepts (the difference is below the
  tolerance), and the purchase is stored with the amount 1.5000001 SOL, not with 1.5 SOL.
\<close>

theorem initiate_then_confirm_after_price_change:
  "fst (initiate_purchase (world_answering (RpcValue None)) (db0 [])
          \<lparr>create_listing_id = ''L1'', create_buyer_wallet = buyer0\<rparr>)
     = Inr \<lparr>init_transaction_data =
              \<lparr>from_pubkey = buyer0, to_pubkey = creator0, td_lamports = 1500000000,
               td_amount_sol = 3 / 2, recent_blockhash = ''blockhash'',
               last_valid_block_height = 7, priority_fee = None, optimized = False\<rparr>,
            init_listing = listing0, init_amount_sol = 3 / 2\<rparr>
   \<and> float_round (15000001 / 10000000) = price_raised
   \<and> price_raised \<noteq> 3 / 2
   \<and> response
       (confirm_purchase (world_answering (RpcValue (Some (tx_paying 1500000000))))
          ((snd (initiate_purchase (world_answering (RpcValue None)) (db0 [])
                   \<lparr>create_listing_id = ''L1'', create_buyer_wallet = buyer0\<rparr>))
             \<lparr>listings := [listing0\<lparr>price_sol := price_raised\<rparr>]\<rparr>)
          (confirm0 ''sig1''))
     = Inr \<lparr>id_Purchase = ''uuid-2'', listing_id = ''L1'', buyer_wallet = buyer0,
            transaction_signature = ''sig1'', amount_sol = price_raised,
            status = CONFIRMED, purchased_at = 100, confirmed_at = Some 100\<rparr>
   \<and> purchases (db_after
       (confirm_purchase (world_answering (RpcValue (Some (tx_paying 1500000000))))
          ((snd (initiate_purchase (world_answering (RpcValue None)) (db0 [])
                   \<lparr>create_listing_id = ''L1'', create_buyer_wallet = buyer0\<rparr>))
             \<lparr>listings := [listing0\<lparr>price_sol := price_raised\<rparr>]\<rparr>)
          (confirm0 ''sig1'')))
     = [\<lparr>id_Purchase = ''uuid-2'', listing_id = ''L1'', buyer_wallet = buyer0,
         transaction_signature = ''sig1'', amount_sol = price_raised,
         status = CONFIRMED, purchased_at = 100, confirmed_at = Some 100\<rparr>]"
proof -
  let ?d = "\<lparr>users = [\<lparr>wallet_address = buyer0, role = BUYER\<rparr>],
             listings = [listing0\<lparr>price_sol := price_raised\<rparr>], purchases = []\<rparr>"
  let ?p = "\<lparr>id_Purchase = ''uuid-2'', listing_id = ''L1'', buyer_wallet = buyer0,
            transaction_signature = ''sig1'', amount_sol = price_raised,
            status = CONFIRMED, purchased_at = 100, confirmed_at = Some 100\<rparr>"
  have valid: "is_valid_solana_address buyer0"
    by (simp add: is_valid_solana_address_def buyer0_def base58_alphabet_def)
  have init: "initiate_purchase (world_answering (RpcValue None)) (db0 [])
          \<lparr>create_listing_id = ''L1'', create_buyer_wallet = buyer0\<rparr>
     = (Inr \<lparr>init_transaction_data =
              \<lparr>from_pubkey = buyer0, to_pubkey = creator0, td_lamports = 1500000000,
               td_amount_sol = 3 / 2, recent_blockhash = ''blockhash'',
               last_valid_block_height = 7, priority_fee = None, optimized = False\<rparr>,
            init_listing = listing0, init_amount_sol = 3 / 2\<rparr>,
        \<lparr>users = [\<lparr>wallet_address = buyer0, role = BUYER\<rparr>], listings = [listing0],
         purchases = []\<rparr>)"
    using valid
    by (simp add: initiate_purchase_def create_transfer_transaction_def gateway_optimize_def
        ensure_buyer_def world_answering_def db0_def listing0_def sol_to_lamports_1_5)
  have v: "verify_transaction (world_answering (RpcValue (Some (tx_paying 1500000000))))
        ''sig1'' buyer0 creator0 price_raised"
    unfolding verify_transaction_tx_paying [OF lamports_to_sol_1500000000]
      float_round_diff_price_raised
    by (simp add: float_round_tolerance)
  have conf: "confirm_purchase (world_answering (RpcValue (Some (tx_paying 1500000000))))
      ?d (confirm0 ''sig1'')
      = \<lparr>response = Inr ?p, db_after = ?d\<lparr>purchases := [?p]\<rparr>,
         verifier_calls = [''sig1'']\<rparr>"
    using v
    by (simp add: confirm_purchase_def confirm_verify_def confirm_after_verify_def
        world_answering_def listing0_def confirm0_def Let_def)
  have ne: "price_raised \<noteq> 3 / 2"
    by (simp add: price_raised_def)
  have resp: "response (confirm_purchase
      (world_answering (RpcValue (Some (tx_paying 1500000000)))) ?d (confirm0 ''sig1''))
      = Inr ?p"
    by (simp add: conf)
  have rows: "purchases (db_after (confirm_purchase
      (world_answering (RpcValue (Some (tx_paying 1500000000)))) ?d (confirm0 ''sig1'')))
      = [?p]"
    by (simp add: conf)
  have d: "(snd (initiate_purchase (world_answering (RpcValue None)) (db0 [])
                   \<lparr>create_listing_id = ''L1'', create_buyer_wallet = buyer0\<rparr>))
             \<lparr>listings := [listing0\<lparr>price_sol := price_raised\<rparr>]\<rparr> = ?d"
    by (simp add: init)
  have i: "fst (initiate_purchase (world_answering (RpcValue None)) (db0 [])
          \<lparr>create_listing_id = ''L1'', create_buyer_wallet = buyer0\<rparr>)
     = Inr \<lparr>init_transaction_data =
              \<lparr>from_pubkey = buyer0, to_pubkey = creator0, td_lamports = 1500000000,
               td_amount_sol = 3 / 2, recent_blockhash = ''blockhash'',
               last_valid_block_height = 7, priority_fee = None, optimized = False\<rparr>,
            init_listing = listing0, init_amount_sol = 3 / 2\<rparr>"
    by (simp add: init)
  from i float_round_1_5000001 ne resp rows show ?thesis
    unfolding d by (intro conjI)
qed

text \<open>
  C6 (amended). \<open>initiate_purchase\<close> returns the price the listing has at initiation and
  stores no purchase. A successful \<open>confirm_purchase\<close> for a signature without a purchase
  has verified the transfer against the price the listing has at confirmation, and the one
  row it adds to the purchases, which it also returns, is \<^verbatim>\<open>CONFIRMED\<close> and records
  that price as its amount. The recorded amount therefore equals the amount returned at
  initiation when the listing's price is the same at both times.
\<close>

theorem initiate_then_confirm_amount:
  assumes "initiate_purchase w0 d0 purchase_data = (Inr r, d1)"
    and "find (\<lambda>l. id_Listing l = create_listing_id purchase_data \<and> is_active l) (listings d0)
           = Some listing_at_initiation"
    and "find (\<lambda>l. id_Listing l = confirm_listing_id confirm_data) (listings d2)
           = Some listing_at_confirmation"
    and "find (\<lambda>p. transaction_signature p = confirm_transaction_signature confirm_data)
           (purchases d2) = None"
    and "response (confirm_purchase w2 d2 confirm_data) = Inr p"
  shows "init_amount_sol r = price_sol listing_at_initiation
       \<and> purchases d1 = purchases d0
       \<and> verify_transaction w2 (confirm_transaction_signature confirm_data)
           (confirm_buyer_wallet confirm_data) (creator_wallet listing_at_confirmation)
           (price_sol listing_at_confirmation)
       \<and> db_after (confirm_purchase w2 d2 confirm_data)
           = d2\<lparr>purchases := purchases d2 @ [p]\<rparr>
       \<and> amount_sol p = price_sol listing_at_confirmation
       \<and> status p = CONFIRMED
       \<and> (price_sol listing_at_confirmation = price_sol listing_at_initiation
            \<longrightarrow> amount_sol p = init_amount_sol r)"
proof -
  let ?v = "verify_transaction w2 (confirm_transaction_signature confirm_data)
           (confirm_buyer_wallet confirm_data) (creator_wallet listing_at_confirmation)
           (price_sol listing_at_confirmation)"
  have init: "init_amount_sol r = price_sol listing_at_initiation" "purchases d1 = purchases d0"
    using assms(1,2) by (rule initiate_purchase_amount)+
  have slow: "confirm_purchase w2 d2 confirm_data
      = confirm_verify w2 d2 confirm_data listing_at_confirmation None"
    using assms(3,4) by (rule confirm_slow_path) simp
  have v: ?v
  proof (rule ccontr)
    assume "\<not> ?v"
    then have "response (confirm_purchase w2 d2 confirm_data) = Inl verification_failed"
      by (simp add: slow confirm_verify_rejected)
    with assms(5) show False by simp
  qed
  with assms(5) have "amount_sol p = price_sol listing_at_confirmation" "status p = CONFIRMED"
      "db_after (confirm_purchase w2 d2 confirm_data) = d2\<lparr>purchases := purchases d2 @ [p]\<rparr>"
    by (auto simp: slow confirm_verify_accepted_new)
  with init v show ?thesis
    by simp
qed

text \<open>The sequence above with the price left at 1.5 SOL.\<close>

theorem initiate_then_confirm_amount_witness:
  "initiate_purchase (world_answering (RpcValue None)) (db0 [])
      \<lparr>create_listing_id = ''L1'', create_buyer_wallet = buyer0\<rparr>
     = (Inr \<lparr>init_transaction_data =
              \<lparr>from_pubkey = buyer0, to_pubkey = creator0, td_lamports = 1500000000,
               td_amount_sol = 3 / 2, recent_blockhash = ''blockhash'',
               last_valid_block_height = 7, priority_fee = None, optimized = False\<rparr>,
            init_listing = listing0, init_amount_sol = 3 / 2\<rparr>,
        \<lparr>users = [\<lparr>wallet_address = buyer0, role = BUYER\<rparr>], listings = [listing0],
         purchases = []\<rparr>)
   \<and> find (\<lambda>l. id_Listing l = ''L1'' \<and> is_active l) (listings (db0 [])) = Some listing0
   \<and> find (\<lambda>l. id_Listing l = confirm_listing_id (confirm0 ''sig1''))
       (listings \<lparr>users = [\<lparr>wallet_address = buyer0, role = BUYER\<rparr>], listings = [listing0],
                  purchases = []\<rparr>) = Some listing0
   \<and> find (\<lambda>p. transaction_signature p = confirm_transaction_signature (confirm0 ''sig1''))
       (purchases \<lparr>users = [\<lparr>wallet_address = buyer0, role = BUYER\<rparr>], listings = [listing0],
                   purchases = []\<rparr>) = None
   \<and> response (confirm_purchase (world_answering (RpcValue (Some (tx_paying 1500000000))))
        \<lparr>users = [\<lparr>wallet_address = buyer0, role = BUYER\<rparr>], listings = [listing0],
         purchases = []\<rparr> (confirm0 ''sig1''))
       = Inr (purchase_created ''uuid-2'' ''sig1'' 100)
   \<and> price_sol listing0 = 3 / 2
   \<and> amount_sol (purchase_created ''uuid-2'' ''sig1'' 100) = 3 / 2
   \<and> verify_transaction (world_answering (RpcValue (Some (tx_paying 1500000000))))
        (confirm_transaction_signature (confirm0 ''sig1''))
        (confirm_buyer_wallet (confirm0 ''sig1'')) (creator_wallet listing0) (price_sol listing0)
   \<and> db_after (confirm_purchase (world_answering (RpcValue (Some (tx_paying 1500000000))))
        \<lparr>users = [\<lparr>wallet_address = buyer0, role = BUYER\<rparr>], listings = [listing0],
         purchases = []\<rparr> (confirm0 ''sig1''))
       = \<lparr>users = [\<lparr>wallet_address = buyer0, role = BUYER\<rparr>], listings = [listing0],
          purchases = [purchase_created ''uuid-2'' ''sig1'' 100]\<rparr>"
proof -
  let ?d1 = "\<lparr>users = [\<lparr>wallet_address = buyer0, role = BUYER\<rparr>], listings = [listing0],
         purchases = []\<rparr>"
  let ?w = "world_answering (RpcValue (Some (tx_paying 1500000000)))"
  have valid: "is_valid_solana_address buyer0"
    by (simp add: is_valid_solana_address_def buyer0_def base58_alphabet_def)
  have a: "initiate_purchase (world_answering (RpcValue None)) (db0 [])
          \<lparr>create_listing_id = ''L1'', create_buyer_wallet = buyer0\<rparr>
     = (Inr \<lparr>init_transaction_data =
              \<lparr>from_pubkey = buyer0, to_pubkey = creator0, td_lamports = 1500000000,
               td_amount_sol = 3 / 2, recent_blockhash = ''blockhash'',
               last_valid_block_height = 7, priority_fee = None, optimized = False\<rparr>,
            init_listing = listing0, init_amount_sol = 3 / 2\<rparr>, ?d1)"
    using valid
    by (simp add: initiate_purchase_def create_transfer_transaction_def gateway_optimize_def
        ensure_buyer_def world_answering_def db0_def listing0_def sol_to_lamports_1_5)
  have b: "find (\<lambda>l. id_Listing l = create_listing_id
                  \<lparr>create_listing_id = ''L1'', create_buyer_wallet = buyer0\<rparr> \<and> is_active l)
             (listings (db0 [])) = Some listing0"
    by (simp add: db0_def listing0_def)
  have b': "find (\<lambda>l. id_Listing l = ''L1'' \<and> is_active l) (listings (db0 [])) = Some listing0"
    by (simp add: db0_def listing0_def)
  have c: "find (\<lambda>l. id_Listing l = confirm_listing_id (confirm0 ''sig1'')) (listings ?d1)
             = Some listing0"
    by (simp add: confirm0_def listing0_def)
  have e: "find (\<lambda>p. transaction_signature p = confirm_transaction_signature (confirm0 ''sig1''))
             (purchases ?d1) = None"
    by simp
  have f: "response (confirm_purchase ?w ?d1 (confirm0 ''sig1''))
       = Inr (purchase_created ''uuid-2'' ''sig1'' 100)"
    by (simp add: confirm_purchase_def confirm_verify_def confirm_after_verify_def
        verify_transaction_def verify_transaction_try_def world_answering_def
        listing0_def confirm0_def purchase_created_def tx_paying_def transfer_ix_def
        float_evals Let_def)
  have g: "price_sol listing0 = 3 / 2"
    by (simp add: listing0_def)
  note t = initiate_then_confirm_amount [OF a b c e f]
  from t have v: "verify_transaction ?w (confirm_transaction_signature (confirm0 ''sig1''))
        (confirm_buyer_wallet (confirm0 ''sig1'')) (creator_wallet listing0) (price_sol listing0)"
    by blast
  from t g have am: "amount_sol (purchase_created ''uuid-2'' ''sig1'' 100) = 3 / 2"
    by simp
  from t have "db_after (confirm_purchase ?w ?d1 (confirm0 ''sig1''))
      = ?d1\<lparr>purchases := purchases ?d1 @ [purchase_created ''uuid-2'' ''sig1'' 100]\<rparr>"
    by blast
  then have db: "db_after (confirm_purchase ?w ?d1 (confirm0 ''sig1''))
      = \<lparr>users = [\<lparr>wallet_address = buyer0, role = BUYER\<rparr>], listings = [listing0],
          purchases = [purchase_created ''uuid-2'' ''sig1'' 100]\<rparr>"
    by simp
  from a b' c e f g am v db show ?thesis
    by (intro conjI)
qed



end
